theory Spec2Isabelle
  imports Main
begin

section \<open>Python values, exceptions and effects\<close>

text \<open>
  The module \<open>Extractors.py\<close> is a family of classes that mutate three lists of the
  instance and talk to the network, to the imgur client, to an HTML parser and to a
  logger. Every method is modelled as a function from the instance before the call to
  the outcome of the call and the instance after it. The outcome is \<open>Inr v\<close> when the
  method returns \<open>v\<close> and \<open>Inl e\<close> when it raises \<open>e\<close>; the instance after the call is
  kept in both cases, because what a method appended before it raised stays appended.
\<close>

datatype exn =
    ImgurClientError "int option"
  | ImgurClientRateLimitError
  | NameError
  | ValueError
  | AttributeError
  | TypeError
  | KeyError
  | IndexError
  | OtherError

type_synonym ('a, 's) M = "'s \<Rightarrow> (exn + 'a) \<times> 's"

definition try_except :: "(unit, 's) M \<Rightarrow> (exn \<Rightarrow> (unit, 's) M) \<Rightarrow> (unit, 's) M" where
  "try_except m h s = (case m s of (Inl e, s') \<Rightarrow> h e s' | (Inr v, s') \<Rightarrow> (Inr v, s'))"

text \<open>A value decoded from JSON; a dict is the list of its items.\<close>

datatype pyval =
    PNone
  | PBool bool
  | PInt int
  | PStr string
  | PList "pyval list"
  | PDict "(string \<times> pyval) list"

text \<open>\<open>d.get(k)\<close>: the value, \<open>None\<close> for a missing key, AttributeError when \<open>d\<close> is
  not a dict (\<open>None\<close>, a list, a string and a number have no \<open>get\<close>).\<close>

fun py_get :: "pyval \<Rightarrow> string \<Rightarrow> exn + pyval" where
  "py_get (PDict kvs) k = Inr (case map_of kvs k of None \<Rightarrow> PNone | Some v \<Rightarrow> v)"
| "py_get PNone k = Inl AttributeError"
| "py_get (PBool b) k = Inl AttributeError"
| "py_get (PInt i) k = Inl AttributeError"
| "py_get (PStr x) k = Inl AttributeError"
| "py_get (PList xs) k = Inl AttributeError"

section \<open>Strings\<close>

text \<open>\<open>s.startswith(p)\<close>, \<open>s.endswith(p)\<close>, \<open>sub in s\<close>.\<close>

definition startswith :: "string \<Rightarrow> string \<Rightarrow> bool" where
  "startswith s p = (take (length p) s = p)"

definition endswith :: "string \<Rightarrow> string \<Rightarrow> bool" where
  "endswith s p = (drop (length s - length p) s = p)"

fun contains :: "string \<Rightarrow> string \<Rightarrow> bool" where
  "contains sub [] = (sub = [])"
| "contains sub (c # cs) = (startswith (c # cs) sub \<or> contains sub cs)"

text \<open>\<open>s.endswith((p1, ..., pn))\<close> with a tuple of suffixes.\<close>

definition endswith_any :: "string \<Rightarrow> string list \<Rightarrow> bool" where
  "endswith_any s ps = list_ex (endswith s) ps"

text \<open>\<open>s.find(sub)\<close>: the first index where \<open>sub\<close> occurs, \<open>-1\<close> when it does not.\<close>

fun find_from :: "string \<Rightarrow> string \<Rightarrow> nat \<Rightarrow> int" where
  "find_from sub [] i = (if sub = [] then int i else - 1)"
| "find_from sub (c # cs) i = (if startswith (c # cs) sub then int i else find_from sub cs (Suc i))"

definition py_find :: "string \<Rightarrow> string \<Rightarrow> int" where
  "py_find s sub = find_from sub s 0"

text \<open>\<open>s.rfind(c)\<close> for a single character.\<close>

definition py_rfind :: "string \<Rightarrow> char \<Rightarrow> int" where
  "py_rfind s c =
     (if c \<in> set s then int (length s) - 1 - int (length (takeWhile (\<lambda>x. x \<noteq> c) (rev s)))
      else - 1)"

text \<open>\<open>s[:i]\<close>: a negative index counts from the end.\<close>

definition slice_to :: "string \<Rightarrow> int \<Rightarrow> string" where
  "slice_to s i = (if 0 \<le> i then take (nat i) s else take (length s - nat (- i)) s)"

text \<open>\<open>s.rsplit(c, 1)\<close> for a single character: one element when \<open>c\<close> does not occur,
  else what stands before the last \<open>c\<close> and what stands after it.\<close>

definition before_last :: "string \<Rightarrow> char \<Rightarrow> string" where
  "before_last s c = rev (drop 1 (dropWhile (\<lambda>x. x \<noteq> c) (rev s)))"

definition after_last :: "string \<Rightarrow> char \<Rightarrow> string" where
  "after_last s c = rev (takeWhile (\<lambda>x. x \<noteq> c) (rev s))"

definition rsplit1 :: "string \<Rightarrow> char \<Rightarrow> string list" where
  "rsplit1 s c = (if c \<in> set s then [before_last s c, after_last s c] else [s])"

text \<open>\<open>a, b = xs\<close>: ValueError unless \<open>xs\<close> has two elements.\<close>

fun unpack2 :: "string list \<Rightarrow> exn + (string \<times> string)" where
  "unpack2 [a, b] = Inr (a, b)"
| "unpack2 xs = Inl ValueError"

text \<open>\<open>s.lower()\<close>. A \<open>string\<close> holds 8-bit characters; only the letters A to Z are
  mapped, which is all that the suffix tests of this module can see.\<close>

definition lower_char :: "char \<Rightarrow> char" where
  "lower_char c =
     (case map_of (zip ''ABCDEFGHIJKLMNOPQRSTUVWXYZ'' ''abcdefghijklmnopqrstuvwxyz'') c of
        None \<Rightarrow> c
      | Some d \<Rightarrow> d)"

definition lower :: "string \<Rightarrow> string" where
  "lower s = map lower_char s"

section \<open>The data model\<close>

text \<open>The \<open>count\<close> argument of \<open>Content\<close>: the empty string, or the counter of an album
  loop.\<close>

datatype ordinal = EmptyStr | Num nat

text \<open>\<open>Core.Content.Content\<close> is built from eleven positional arguments; the record keeps
  them as they are passed.\<close>

record content =
  c_url :: pyval
  c_user :: string
  c_post_title :: string
  c_subreddit :: string
  c_file_name :: string
  c_count :: ordinal
  c_extension :: string
  c_save_path :: string
  c_subreddit_save_method :: string
  c_date_created :: int
  c_display_only :: bool

definition Content ::
  "pyval \<Rightarrow> string \<Rightarrow> string \<Rightarrow> string \<Rightarrow> string \<Rightarrow> ordinal \<Rightarrow> string \<Rightarrow> string \<Rightarrow> string \<Rightarrow> int \<Rightarrow> bool
     \<Rightarrow> content" where
  "Content u usr title sub file_name cnt ext path method date display =
     \<lparr>c_url = u, c_user = usr, c_post_title = title, c_subreddit = sub, c_file_name = file_name,
      c_count = cnt, c_extension = ext, c_save_path = path, c_subreddit_save_method = method,
      c_date_created = date, c_display_only = display\<rparr>"

text \<open>\<open>Core.Post.Post(url, user, post_title, subreddit, creation_date)\<close>.\<close>

record post =
  p_url :: string
  p_user :: string
  p_title :: string
  p_subreddit :: string
  p_date :: int

definition Post :: "string \<Rightarrow> string \<Rightarrow> string \<Rightarrow> string \<Rightarrow> int \<Rightarrow> post" where
  "Post u usr title sub date =
     \<lparr>p_url = u, p_user = usr, p_title = title, p_subreddit = sub, p_date = date\<rparr>"

text \<open>The list \<open>extracted_content\<close> receives \<open>Content\<close> objects and, from several methods,
  plain strings.\<close>

datatype item = ContentObj content | Str string

datatype log_event = LogError string | LogWarning string

datatype host_call = HttpGet string | GetImage string | GetAlbumImages string

text \<open>The instance. \<open>logged\<close> and \<open>host_calls\<close> are not attributes of the class: they
  record, in order, the calls to the logger and the requests sent to a host.\<close>

record extractor =
  url :: string
  user :: string
  post_title :: string
  subreddit :: string
  creation_date :: int
  save_path :: string
  content_display_only :: bool
  subreddit_save_method :: string
  name_downloads_by :: string
  extracted_content :: "item list"
  failed_extract_messages :: "string list"
  failed_extracts_to_save :: "post list"
  logged :: "log_event list"
  host_calls :: "host_call list"

text \<open>\<open>Extractor.__init__\<close>.\<close>

definition Extractor_init ::
  "string \<Rightarrow> string \<Rightarrow> string \<Rightarrow> string \<Rightarrow> int \<Rightarrow> string \<Rightarrow> string \<Rightarrow> string \<Rightarrow> bool \<Rightarrow> extractor" where
  "Extractor_init u usr title sub date method name_by path display =
     \<lparr>url = u, user = usr, post_title = title, subreddit = sub, creation_date = date,
      save_path = path, content_display_only = display, subreddit_save_method = method,
      name_downloads_by = name_by, extracted_content = [], failed_extract_messages = [],
      failed_extracts_to_save = [], logged = [], host_calls = []\<rparr>"

text \<open>What \<open>requests.get\<close> answers: the status code, the Content-Type header (absent when
  the response has none, and then \<open>response.headers['Content-Type']\<close> raises KeyError),
  what \<open>response.json()\<close> gives, and \<open>response.text\<close>.\<close>

record response =
  status_code :: int
  content_type :: "string option"
  json_body :: "exn + pyval"
  body_text :: string

text \<open>An \<open>img\<close> tag as BeautifulSoup gives it: \<open>img.get('class')\<close> and \<open>img.get('src')\<close>.\<close>

record img =
  img_class :: "string list option"
  img_src :: "string option"

text \<open>The outside world of the base class: \<open>requests.get(url)\<close>, and
  \<open>BeautifulSoup(markup, 'html.parser').find_all('img')\<close> (the markup is \<open>None\<close> when
  \<open>get_text\<close> returned nothing).\<close>

record env =
  requests_get :: "string \<Rightarrow> exn + response"
  soup_find_all_img :: "string option \<Rightarrow> exn + img list"

section \<open>The base class\<close>

definition log_error :: "string \<Rightarrow> 'a extractor_scheme \<Rightarrow> 'a extractor_scheme" where
  "log_error m s = s\<lparr>logged := logged s @ [LogError m]\<rparr>"

definition log_warning :: "string \<Rightarrow> 'a extractor_scheme \<Rightarrow> 'a extractor_scheme" where
  "log_warning m s = s\<lparr>logged := logged s @ [LogWarning m]\<rparr>"

text \<open>\<open>self.extracted_content.append(x)\<close>.\<close>

definition append_extracted :: "item \<Rightarrow> 'a extractor_scheme \<Rightarrow> 'a extractor_scheme" where
  "append_extracted x s = s\<lparr>extracted_content := extracted_content s @ [x]\<rparr>"

definition sent :: "host_call \<Rightarrow> 'a extractor_scheme \<Rightarrow> 'a extractor_scheme" where
  "sent c s = s\<lparr>host_calls := host_calls s @ [c]\<rparr>"

text \<open>The test \<open>response.status_code == 200 and kind in response.headers['Content-Type']\<close>:
  the header is read only when the status is 200.\<close>

definition good_response :: "string \<Rightarrow> response \<Rightarrow> exn + bool" where
  "good_response kind r =
     (if status_code r = 200
      then (case content_type r of None \<Rightarrow> Inl KeyError | Some ct \<Rightarrow> Inr (contains kind ct))
      else Inr False)"

definition json_failed_message :: "string \<Rightarrow> 'a extractor_scheme \<Rightarrow> string" where
  "json_failed_message u s =
     ''Failed to retrieve json data for link '' @ u @ ''\<newline>User: '' @ user s @
     ''  Subreddit: '' @ subreddit s @ ''  Tile: '' @ post_title s"

definition text_failed_message :: "string \<Rightarrow> 'a extractor_scheme \<Rightarrow> string" where
  "text_failed_message u s =
     ''Failed to retrieve data for link '' @ u @ ''\<newline>User: '' @ user s @
     ''  Subreddit: '' @ subreddit s @ ''  Tile: '' @ post_title s"

text \<open>\<open>Extractor.get_json\<close>. Falling off the end of the method returns \<open>None\<close>.\<close>

definition get_json :: "env \<Rightarrow> string \<Rightarrow> (pyval, extractor) M" where
  "get_json env u s =
     (let s1 = sent (HttpGet u) s in
      case requests_get env u of
        Inl e \<Rightarrow> (Inl e, s1)
      | Inr response \<Rightarrow>
          (case good_response ''json'' response of
             Inl e \<Rightarrow> (Inl e, s1)
           | Inr True \<Rightarrow> (json_body response, s1)
           | Inr False \<Rightarrow>
               (Inr PNone,
                append_extracted (Str (json_failed_message u s1))
                  (log_error ''Failed connection: Bad response'' s1))))"

text \<open>\<open>Extractor.get_text\<close>: the text, or \<open>None\<close>.\<close>

definition get_text :: "env \<Rightarrow> string \<Rightarrow> (string option, extractor) M" where
  "get_text env u s =
     (let s1 = sent (HttpGet u) s in
      case requests_get env u of
        Inl e \<Rightarrow> (Inl e, s1)
      | Inr response \<Rightarrow>
          (case good_response ''text'' response of
             Inl e \<Rightarrow> (Inl e, s1)
           | Inr True \<Rightarrow> (Inr (Some (body_text response)), s1)
           | Inr False \<Rightarrow>
               (Inr None,
                append_extracted (Str (text_failed_message u s1))
                  (log_error ''Failed connection: Bad response'' s1))))"

text \<open>The name an extractor gives a file: \<open>self.post_title if self.name_downloads_by ==
  'Post Title' else <id>\<close>.\<close>

definition file_name_for :: "'a extractor_scheme \<Rightarrow> string \<Rightarrow> string" where
  "file_name_for s ident = (if name_downloads_by s = ''Post Title'' then post_title s else ident)"

text \<open>The message of the catch-all handlers of the Gfycat, Vidble and reddit uploads
  extractors.\<close>

definition failed_to_locate_message :: "'a extractor_scheme \<Rightarrow> string" where
  "failed_to_locate_message s =
     ''Failed to locate the content at '' @ url s @ ''\<newline>User: '' @ user s @
     ''  Subreddit: '' @ subreddit s @ ''  Title: '' @ post_title s"

definition locate_handler :: "exn \<Rightarrow> (unit, extractor) M" where
  "locate_handler e s =
     (Inr (),
      log_error ''Failed extract: Failed to locate content''
        (append_extracted (Str (failed_to_locate_message s)) s))"

section \<open>GfycatExtractor\<close>

definition api_caller :: string where
  "api_caller = ''https://gfycat.com/cajax/get/''"

definition Gfycat_extract_direct_link :: "(unit, extractor) M" where
  "Gfycat_extract_direct_link s =
     (case unpack2 (rsplit1 (url s) CHR ''/'') of
        Inl e \<Rightarrow> (Inl e, s)
      | Inr (domain, id_with_ext) \<Rightarrow>
          (case unpack2 (rsplit1 id_with_ext CHR ''.'') of
             Inl e \<Rightarrow> (Inl e, s)
           | Inr (gfy_id, ext) \<Rightarrow>
               (Inr (),
                append_extracted
                  (ContentObj (Content (PStr (url s)) (user s) (post_title s) (subreddit s)
                     (file_name_for s gfy_id) EmptyStr (''.'' @ ext) (save_path s)
                     (subreddit_save_method s) (creation_date s) (content_display_only s))) s)))"

definition Gfycat_extract_single :: "env \<Rightarrow> (unit, extractor) M" where
  "Gfycat_extract_single env s =
     (case unpack2 (rsplit1 (url s) CHR ''/'') of
        Inl e \<Rightarrow> (Inl e, s)
      | Inr (domain, gif_id) \<Rightarrow>
          (case get_json env (api_caller @ gif_id) s of
             (Inl e, s1) \<Rightarrow> (Inl e, s1)
           | (Inr gfy_json, s1) \<Rightarrow>
               (case py_get gfy_json ''gfyItem'' of
                  Inl e \<Rightarrow> (Inl e, s1)
                | Inr gfy_item \<Rightarrow>
                    (case py_get gfy_item ''webmUrl'' of
                       Inl e \<Rightarrow> (Inl e, s1)
                     | Inr gfy_url \<Rightarrow>
                         (Inr (),
                          append_extracted
                            (ContentObj (Content gfy_url (user s1) (post_title s1) (subreddit s1)
                               (file_name_for s1 gif_id) EmptyStr ''.webm'' (save_path s1)
                               (subreddit_save_method s1) (creation_date s1)
                               (content_display_only s1))) s1)))))"

definition Gfycat_extract_content :: "env \<Rightarrow> (unit, extractor) M" where
  "Gfycat_extract_content env =
     try_except
       (\<lambda>s. if endswith_any (lower (url s)) [''webm'', ''gif'', ''gifv'']
            then Gfycat_extract_direct_link s
            else Gfycat_extract_single env s)
       locate_handler"

section \<open>VidbleExtractor\<close>

definition vidble_base :: string where
  "vidble_base = ''https://vidble.com''"

text \<open>The body of the loops over the \<open>img\<close> tags: the link of a tag that counts, \<open>None\<close>
  for a tag that is skipped. \<open>img_class[0]\<close> raises IndexError on an empty list.\<close>

definition img2_link :: "img \<Rightarrow> exn + string option" where
  "img2_link i =
     (case img_class i of
        None \<Rightarrow> Inr None
      | Some [] \<Rightarrow> Inl IndexError
      | Some (c0 # cs) \<Rightarrow> (if c0 = ''img2'' then Inr (img_src i) else Inr None))"

fun Vidble_single_loop :: "string \<Rightarrow> img list \<Rightarrow> extractor \<Rightarrow> (exn + unit) \<times> extractor" where
  "Vidble_single_loop vidble_id [] s = (Inr (), s)"
| "Vidble_single_loop vidble_id (i # imgs) s =
     (case img2_link i of
        Inl e \<Rightarrow> (Inl e, s)
      | Inr None \<Rightarrow> Vidble_single_loop vidble_id imgs s
      | Inr (Some link) \<Rightarrow>
          (case unpack2 (rsplit1 link CHR ''.'') of
             Inl e \<Rightarrow> (Inl e, s)
           | Inr (base, extension) \<Rightarrow>
               Vidble_single_loop vidble_id imgs
                 (append_extracted
                    (ContentObj (Content (PStr (vidble_base @ link)) (user s) (post_title s)
                       (subreddit s) (file_name_for s vidble_id) EmptyStr (''.'' @ extension)
                       (save_path s) (subreddit_save_method s) (creation_date s)
                       (content_display_only s))) s)))"

definition Vidble_extract_single :: "env \<Rightarrow> (unit, extractor) M" where
  "Vidble_extract_single env s =
     (case unpack2 (rsplit1 (url s) CHR ''/'') of
        Inl e \<Rightarrow> (Inl e, s)
      | Inr (domain, vidble_id0) \<Rightarrow>
          (let vidble_id =
                 (if CHR ''.'' \<in> set vidble_id0
                  then slice_to vidble_id0 (py_rfind vidble_id0 CHR ''.'')
                  else vidble_id0)
           in case get_text env (url s) s of
                (Inl e, s1) \<Rightarrow> (Inl e, s1)
              | (Inr markup, s1) \<Rightarrow>
                  (case soup_find_all_img env markup of
                     Inl e \<Rightarrow> (Inl e, s1)
                   | Inr imgs \<Rightarrow> Vidble_single_loop vidble_id imgs s1)))"

fun Vidble_album_loop ::
  "string \<Rightarrow> nat \<Rightarrow> img list \<Rightarrow> extractor \<Rightarrow> (exn + unit) \<times> extractor" where
  "Vidble_album_loop vidble_id count [] s = (Inr (), s)"
| "Vidble_album_loop vidble_id count (i # imgs) s =
     (case img2_link i of
        Inl e \<Rightarrow> (Inl e, s)
      | Inr None \<Rightarrow> Vidble_album_loop vidble_id count imgs s
      | Inr (Some link) \<Rightarrow>
          (case unpack2 (rsplit1 link CHR ''.'') of
             Inl e \<Rightarrow> (Inl e, s)
           | Inr (base, extension) \<Rightarrow>
               Vidble_album_loop vidble_id (count + 1) imgs
                 (append_extracted
                    (ContentObj (Content (PStr (vidble_base @ link)) (user s) (post_title s)
                       (subreddit s) (file_name_for s vidble_id) (Num count) (''.'' @ extension)
                       (save_path s) (subreddit_save_method s) (creation_date s)
                       (content_display_only s))) s)))"

definition Vidble_extract_album :: "env \<Rightarrow> (unit, extractor) M" where
  "Vidble_extract_album env s =
     (case unpack2 (rsplit1 (url s) CHR ''/'') of
        Inl e \<Rightarrow> (Inl e, s)
      | Inr (domain, vidble_id) \<Rightarrow>
          (case get_text env (url s) s of
             (Inl e, s1) \<Rightarrow> (Inl e, s1)
           | (Inr markup, s1) \<Rightarrow>
               (case soup_find_all_img env markup of
                  Inl e \<Rightarrow> (Inl e, s1)
                | Inr imgs \<Rightarrow> Vidble_album_loop vidble_id 1 imgs s1)))"

definition Vidble_extract_direct_link :: "(unit, extractor) M" where
  "Vidble_extract_direct_link s =
     (case unpack2 (rsplit1 (url s) CHR ''/'') of
        Inl e \<Rightarrow> (Inl e, s)
      | Inr (domain, id_with_ext) \<Rightarrow>
          (case unpack2 (rsplit1 id_with_ext CHR ''.'') of
             Inl e \<Rightarrow> (Inl e, s)
           | Inr (vidble_id, extension) \<Rightarrow>
               (Inr (),
                append_extracted
                  (ContentObj (Content (PStr (url s)) (user s) (post_title s) (subreddit s)
                     (file_name_for s vidble_id) EmptyStr (''.'' @ extension) (save_path s)
                     (subreddit_save_method s) (creation_date s) (content_display_only s))) s)))"

definition Vidble_extract_content :: "env \<Rightarrow> (unit, extractor) M" where
  "Vidble_extract_content env =
     try_except
       (\<lambda>s. if contains ''/show/'' (url s) \<or> contains ''/explore/'' (url s)
            then Vidble_extract_single env s
            else if contains ''/album/'' (url s)
            then Vidble_extract_album env s
            else if endswith_any (lower (url s))
                      [''.jpg'', ''jpeg'', ''.png'', ''.gif'', ''.gifv'', ''.mp4'', ''webm'']
            then Vidble_extract_direct_link s
            else Vidble_extract_album env s)
       locate_handler"

section \<open>RedditUploadsExtractor and DirectExtractor\<close>

definition RedditUploads_extract_content :: "(unit, extractor) M" where
  "RedditUploads_extract_content =
     try_except
       (\<lambda>s. (Inr (),
             append_extracted
               (ContentObj (Content (PStr (url s @ ''.jpg'')) (user s) (post_title s) (subreddit s)
                  (post_title s) EmptyStr ''.jpg'' (save_path s) (subreddit_save_method s)
                  (creation_date s) (content_display_only s))) s))
       locate_handler"

text \<open>\<open>DirectExtractor.extract_content\<close> has no \<open>try\<close>.\<close>

definition Direct_extract_content :: "(unit, extractor) M" where
  "Direct_extract_content s =
     (case unpack2 (rsplit1 (url s) CHR ''/'') of
        Inl e \<Rightarrow> (Inl e, s)
      | Inr (domain, id_with_ext) \<Rightarrow>
          (case unpack2 (rsplit1 id_with_ext CHR ''.'') of
             Inl e \<Rightarrow> (Inl e, s)
           | Inr (image_id, extension) \<Rightarrow>
               (Inr (),
                append_extracted
                  (ContentObj (Content (PStr (url s)) (user s) (post_title s) (subreddit s)
                     (file_name_for s image_id) EmptyStr (''.'' @ extension) (save_path s)
                     (subreddit_save_method s) (creation_date s) (content_display_only s))) s)))"

section \<open>ImgurExtractor\<close>

text \<open>An image as the imgur client gives it. The attribute \<open>mp4\<close> exists only on some
  images; reading it where it is absent raises AttributeError.\<close>

record picture =
  link :: string
  pic_type :: string
  animated :: bool
  mp4 :: "string option"

text \<open>The imgur client: \<open>get_image(id)\<close>, \<open>get_album_images(id)\<close> and
  \<open>credits['ClientRemaining']\<close> as the handler of \<open>extract_content\<close> reads it after the
  failed call, a number or \<open>None\<close>.\<close>

record imgur_client =
  get_image :: "string \<Rightarrow> exn + picture"
  get_album_images :: "string \<Rightarrow> exn + picture list"
  client_remaining :: "int option"

text \<open>\<open>self.client\<close> is \<open>None\<close> here when the attribute was never assigned; reading it
  then raises AttributeError.\<close>

record imgur_extractor = extractor +
  client :: "imgur_client option"

record settings_manager =
  imgur_client_id :: "string option"
  imgur_client_secret :: "string option"

definition rate_limit_message :: "imgur_extractor \<Rightarrow> string" where
  "rate_limit_message s =
     ''\<newline>Failed: Imgur rate limit exceeded.  This post has been saved and will '' @
     ''be downloaded the next time the application is run.  Please make sure you '' @
     ''have adequate user credits upon the next run.  User credits can be '' @
     ''checked in the help menu\<newline>Title: '' @ post_title s @ '',  User: '' @ user s @
     '',  Subreddit: '' @ subreddit s"

definition no_credit_message :: "imgur_extractor \<Rightarrow> string" where
  "no_credit_message s =
     ''\<newline>Failed: You do not have enough imgur credits left to extract this '' @
     ''content.  This post will be saved and extraction attempted '' @
     ''the next time the program is run.  Please make sure that you '' @
     ''have adequate credits upon next run.\<newline>Title: '' @ post_title s @ '',  User: '' @
     user s @ '',  Subreddit: '' @ subreddit s"

definition over_capacity_message :: "imgur_extractor \<Rightarrow> string" where
  "over_capacity_message s =
     ''\<newline>Failed: Imgur is currently over capacity.  This post has been saved and '' @
     ''extraction will be attempted the next time the program is run.\<newline>Title: '' @
     post_title s @ '', User: '' @ user s @ '',  Subreddit: '' @ subreddit s"

definition does_not_exist_message :: "imgur_extractor \<Rightarrow> string" where
  "does_not_exist_message s =
     ''\<newline>Failed: The content does not exist.  This most likely means that the '' @
     ''image has been deleted on Imgur, but the post still remains on reddit\<newline>'' @
     ''Url: '' @ url s @ '',  User: '' @ user s @ '',  Subreddit: '' @ subreddit s @
     '',  Title: '' @ post_title s"

definition imgur_failed_to_locate_message :: "imgur_extractor \<Rightarrow> string" where
  "imgur_failed_to_locate_message s =
     ''\<newline>Failed to locate the content at '' @ url s @ ''\<newline>User: '' @ user s @
     ''  Subreddit: '' @ subreddit s @ ''  Title: '' @ post_title s @ ''\<newline>''"

definition unrecognized_extension_message :: "imgur_extractor \<Rightarrow> string" where
  "unrecognized_extension_message s =
     ''Failed: Unrecognized file extension: '' @ url s @ ''\<newline>User: '' @ user s @
     ''  Subreddit: '' @ subreddit s @ ''  Title: '' @ post_title s"

definition no_client_message :: "imgur_extractor \<Rightarrow> string" where
  "no_client_message s =
     ''\<newline>Failed: No valid Imgur client is detected. In order to download '' @
     ''content from imgur.com you must have a valid Imugr client. Please see'' @
     ''the settings menu.\<newline>Title: '' @ post_title s @ '',  User: '' @ user s @
     '',  Subreddit: '' @ subreddit s @ '',  URL: '' @ url s @ ''\<newline>''"

definition this_post :: "imgur_extractor \<Rightarrow> post" where
  "this_post s = Post (url s) (user s) (post_title s) (subreddit s) (creation_date s)"

definition rate_limit_exceeded_error :: "imgur_extractor \<Rightarrow> imgur_extractor" where
  "rate_limit_exceeded_error s =
     log_error ''Failed extract: Rate limit exceeded''
       (s\<lparr>failed_extracts_to_save := failed_extracts_to_save s @ [this_post s],
          failed_extract_messages := failed_extract_messages s @ [rate_limit_message s]\<rparr>)"

definition no_credit_error :: "imgur_extractor \<Rightarrow> imgur_extractor" where
  "no_credit_error s =
     log_error ''Failed extract: Out of credits''
       (s\<lparr>failed_extracts_to_save := failed_extracts_to_save s @ [this_post s],
          failed_extract_messages := failed_extract_messages s @ [no_credit_message s]\<rparr>)"

definition over_capacity_error :: "imgur_extractor \<Rightarrow> imgur_extractor" where
  "over_capacity_error s =
     log_error ''Failed extract: Imgur over capacity''
       (s\<lparr>failed_extracts_to_save := failed_extracts_to_save s @ [this_post s],
          failed_extract_messages := failed_extract_messages s @ [over_capacity_message s]\<rparr>)"

definition does_not_exist_error :: "imgur_extractor \<Rightarrow> imgur_extractor" where
  "does_not_exist_error s =
     log_warning ''Failed extract: Content no longer exists''
       (s\<lparr>failed_extract_messages := failed_extract_messages s @ [does_not_exist_message s]\<rparr>)"

definition failed_to_locate_error :: "imgur_extractor \<Rightarrow> imgur_extractor" where
  "failed_to_locate_error s =
     log_error ''Failed extract: Failed to locate content''
       (s\<lparr>failed_extract_messages :=
            failed_extract_messages s @ [imgur_failed_to_locate_message s]\<rparr>)"

text \<open>\<open>ImgurExtractor.__init__\<close>, given the settings manager and the constructor of the
  imgur client. Only an \<open>ImgurClientError\<close> of the constructor is caught.\<close>

definition Imgur_init ::
  "settings_manager \<Rightarrow> (string \<Rightarrow> string \<Rightarrow> exn + imgur_client) \<Rightarrow>
   string \<Rightarrow> string \<Rightarrow> string \<Rightarrow> string \<Rightarrow> int \<Rightarrow> string \<Rightarrow> string \<Rightarrow> string \<Rightarrow> bool \<Rightarrow>
   (exn + unit) \<times> imgur_extractor" where
  "Imgur_init settings ImgurClient u usr title sub date method name_by path display =
     (let s = \<lparr>url = u, user = usr, post_title = title, subreddit = sub, creation_date = date,
                save_path = path, content_display_only = display,
                subreddit_save_method = method, name_downloads_by = name_by,
                extracted_content = [], failed_extract_messages = [],
                failed_extracts_to_save = [], logged = [], host_calls = [], client = None\<rparr>
      in if imgur_client_id settings = None \<or> imgur_client_secret settings = None
         then (Inr (),
               (log_warning ''Imgur extract failed: No imgur client setup'' s)
                 \<lparr>failed_extract_messages := failed_extract_messages s @ [no_client_message s]\<rparr>)
         else (case ImgurClient (the (imgur_client_id settings)) (the (imgur_client_secret settings)) of
                 Inr c \<Rightarrow> (Inr (), s\<lparr>client := Some c\<rparr>)
               | Inl (ImgurClientError sc) \<Rightarrow>
                   (Inr (), if sc = Some 500 then over_capacity_error s else s)
               | Inl e \<Rightarrow> (Inl e, s)))"

text \<open>\<open>self.client.get_image(id)\<close> and \<open>self.client.get_album_images(id)\<close>.\<close>

definition client_get_image :: "string \<Rightarrow> (picture, imgur_extractor) M" where
  "client_get_image i s =
     (case client s of
        None \<Rightarrow> (Inl AttributeError, s)
      | Some c \<Rightarrow> (get_image c i, sent (GetImage i) s))"

definition client_get_album_images :: "string \<Rightarrow> (picture list, imgur_extractor) M" where
  "client_get_album_images i s =
     (case client s of
        None \<Rightarrow> (Inl AttributeError, s)
      | Some c \<Rightarrow> (get_album_images c i, sent (GetAlbumImages i) s))"

text \<open>The loop over the extensions at the head of \<open>extract_direct_link\<close> and
  \<open>extract_direct_mislinked\<close>: \<open>url\<close> is cut after the first occurrence of every
  extension that occurs, a later extension of the list overwriting an earlier one; it
  stays unbound (\<open>None\<close>) when no extension occurs.\<close>

definition imgur_exts :: "string list" where
  "imgur_exts = [''.jpg'', ''.jpeg'', ''.png'', ''.gif'', ''.gifv'', ''.mp4'', ''.webm'']"

definition cut_at_ext :: "string \<Rightarrow> string option" where
  "cut_at_ext u =
     foldl (\<lambda>acc ext. if contains ext u then Some (slice_to u (py_find u ext) @ ext) else acc)
       None imgur_exts"

text \<open>The block \<open>if url.endswith('gifv') or url.endswith('gif'): ...\<close>: the url and the
  extension after it.\<close>

definition resolve_gif :: "string \<Rightarrow> string \<Rightarrow> string \<Rightarrow> (string \<times> string, imgur_extractor) M" where
  "resolve_gif u image_id extension s =
     (if endswith u ''gifv'' \<or> endswith u ''gif''
      then (case client_get_image image_id s of
              (Inl e, s1) \<Rightarrow> (Inl e, s1)
            | (Inr picture, s1) \<Rightarrow>
                (if pic_type picture = ''image/gif'' \<and> animated picture
                 then (case mp4 picture of
                         None \<Rightarrow> (Inl AttributeError, s1)
                       | Some m \<Rightarrow> (Inr (m, ''mp4''), s1))
                 else (Inr (u, extension), s1)))
      else (Inr (u, extension), s))"

text \<open>The handler \<open>except NameError\<close> of the two direct methods; any other exception
  goes on to the caller.\<close>

definition name_error_handler :: "string \<Rightarrow> exn \<Rightarrow> (unit, imgur_extractor) M" where
  "name_error_handler event e s =
     (if e = NameError
      then (Inr (),
            (log_error event s)
              \<lparr>failed_extract_messages :=
                 failed_extract_messages s @ [unrecognized_extension_message s]\<rparr>)
      else (Inl e, s))"

definition Imgur_extract_direct_link :: "(unit, imgur_extractor) M" where
  "Imgur_extract_direct_link =
     try_except
       (\<lambda>s. case cut_at_ext (url s) of
              None \<Rightarrow> (Inl NameError, s)
            | Some u \<Rightarrow>
                (case unpack2 (rsplit1 u CHR ''/'') of
                   Inl e \<Rightarrow> (Inl e, s)
                 | Inr (domain, id_with_ext) \<Rightarrow>
                     (case unpack2 (rsplit1 id_with_ext CHR ''.'') of
                        Inl e \<Rightarrow> (Inl e, s)
                      | Inr (image_id, extension) \<Rightarrow>
                          (case resolve_gif u image_id extension s of
                             (Inl e, s1) \<Rightarrow> (Inl e, s1)
                           | (Inr (u1, extension1), s1) \<Rightarrow>
                               (Inr (),
                                append_extracted
                                  (ContentObj (Content (PStr u1) (user s1) (post_title s1)
                                     (subreddit s1) (file_name_for s1 image_id) EmptyStr
                                     (''.'' @ extension1) (save_path s1)
                                     (subreddit_save_method s1) (creation_date s1)
                                     (content_display_only s1))) s1)))))
       (name_error_handler ''Failed direct extract: Unrecognized extension'')"

text \<open>The block \<open>if pic.type == 'image/gif' and pic.animated: ...\<close> of \<open>extract_album\<close> and
  \<open>extract_single\<close>: the url and the extension after it.\<close>

definition resolve_mp4 :: "picture \<Rightarrow> string \<Rightarrow> exn + (string \<times> string)" where
  "resolve_mp4 pic extension =
     (if pic_type pic = ''image/gif'' \<and> animated pic
      then (case mp4 pic of None \<Rightarrow> Inl AttributeError | Some m \<Rightarrow> Inr (m, ''mp4''))
      else Inr (link pic, extension))"

fun Imgur_album_loop ::
  "string \<Rightarrow> nat \<Rightarrow> picture list \<Rightarrow> imgur_extractor \<Rightarrow> (exn + unit) \<times> imgur_extractor" where
  "Imgur_album_loop album_id count [] s = (Inr (), s)"
| "Imgur_album_loop album_id count (pic # pics) s =
     (case unpack2 (rsplit1 (link pic) CHR ''.'') of
        Inl e \<Rightarrow> (Inl e, s)
      | Inr (address, extension) \<Rightarrow>
          (case resolve_mp4 pic extension of
             Inl e \<Rightarrow> (Inl e, s)
           | Inr (u, extension1) \<Rightarrow>
               Imgur_album_loop album_id (count + 1) pics
                 (append_extracted
                    (ContentObj (Content (PStr u) (user s) (post_title s) (subreddit s)
                       (file_name_for s album_id @ '' '') (Num count) (''.'' @ extension1)
                       (save_path s) (subreddit_save_method s) (creation_date s)
                       (content_display_only s))) s)))"

definition Imgur_extract_album :: "(unit, imgur_extractor) M" where
  "Imgur_extract_album s =
     (case unpack2 (rsplit1 (url s) CHR ''/'') of
        Inl e \<Rightarrow> (Inl e, s)
      | Inr (domain, album_id) \<Rightarrow>
          (case client_get_album_images album_id s of
             (Inl e, s1) \<Rightarrow> (Inl e, s1)
           | (Inr pics, s1) \<Rightarrow> Imgur_album_loop album_id 1 pics s1))"

definition Imgur_extract_single :: "(unit, imgur_extractor) M" where
  "Imgur_extract_single s =
     (case unpack2 (rsplit1 (url s) CHR ''/'') of
        Inl e \<Rightarrow> (Inl e, s)
      | Inr (domain, image_id) \<Rightarrow>
          (case client_get_image image_id s of
             (Inl e, s1) \<Rightarrow> (Inl e, s1)
           | (Inr pic, s1) \<Rightarrow>
               (case unpack2 (rsplit1 (link pic) CHR ''.'') of
                  Inl e \<Rightarrow> (Inl e, s1)
                | Inr (address, extension) \<Rightarrow>
                    (case resolve_mp4 pic extension of
                       Inl e \<Rightarrow> (Inl e, s1)
                     | Inr (u, extension1) \<Rightarrow>
                         (Inr (),
                          append_extracted
                            (ContentObj (Content (PStr u) (user s1) (post_title s1) (subreddit s1)
                               (file_name_for s1 image_id) EmptyStr (''.'' @ extension1)
                               (save_path s1) (subreddit_save_method s1) (creation_date s1)
                               (content_display_only s1))) s1)))))"

definition Imgur_extract_direct_mislinked :: "(unit, imgur_extractor) M" where
  "Imgur_extract_direct_mislinked =
     try_except
       (\<lambda>s. case cut_at_ext (url s) of
              None \<Rightarrow> (Inl NameError, s)
            | Some u \<Rightarrow>
                (case unpack2 (rsplit1 u CHR ''/'') of
                   Inl e \<Rightarrow> (Inl e, s)
                 | Inr (domain, id_with_ext) \<Rightarrow>
                     (let u2 = ''https://i.imgur.com/'' @ id_with_ext in
                      case unpack2 (rsplit1 id_with_ext CHR ''.'') of
                        Inl e \<Rightarrow> (Inl e, s)
                      | Inr (image_id, extension) \<Rightarrow>
                          (case resolve_gif u2 image_id extension s of
                             (Inl e, s1) \<Rightarrow> (Inl e, s1)
                           | (Inr (u3, extension1), s1) \<Rightarrow>
                               (Inr (),
                                append_extracted
                                  (ContentObj (Content (PStr u3) (user s1) (post_title s1)
                                     (subreddit s1) (file_name_for s1 image_id) EmptyStr
                                     (''.'' @ extension1) (save_path s1)
                                     (subreddit_save_method s1) (creation_date s1)
                                     (content_display_only s1))) s1)))))
       (name_error_handler ''Failed direct mislinked extract: Unrecognized extension'')"

text \<open>The three \<open>except\<close> clauses of \<open>extract_content\<close>. In the first, the test on 403 reads
  \<open>self.client\<close>, and the tests on 429, 500 and 404 follow it as separate \<open>if\<close>
  statements; a status code that none of them names records nothing.\<close>

definition Imgur_handler :: "exn \<Rightarrow> (unit, imgur_extractor) M" where
  "Imgur_handler e s =
     (case e of
        ImgurClientError sc \<Rightarrow>
          (case (if sc = Some 403
                 then (case client s of
                         None \<Rightarrow> (Inl AttributeError, s)
                       | Some c \<Rightarrow>
                           (case client_remaining c of
                              None \<Rightarrow> (Inr (), failed_to_locate_error s)
                            | Some r \<Rightarrow>
                                (if r \<le> 0 then (Inr (), no_credit_error s)
                                 else (Inr (), failed_to_locate_error s))))
                 else (Inr (), s)) of
             (Inl e1, s1) \<Rightarrow> (Inl e1, s1)
           | (Inr v, s1) \<Rightarrow>
               (let s2 = (if sc = Some 429 then rate_limit_exceeded_error s1 else s1);
                    s3 = (if sc = Some 500 then over_capacity_error s2 else s2);
                    s4 = (if sc = Some 404 then does_not_exist_error s3 else s3)
                in (Inr (), s4)))
      | ImgurClientRateLimitError \<Rightarrow> (Inr (), rate_limit_exceeded_error s)
      | _ \<Rightarrow> (Inr (), failed_to_locate_error s))"

definition media_suffixes :: "string list" where
  "media_suffixes = [''.jpg'', ''jpeg'', ''.png'', ''.gif'', ''.gifv'', ''.mp4'', ''.webm'']"

text \<open>The body of the \<open>try\<close> statement of \<open>extract_content\<close>; the inner \<open>try\<close> of the
  gallery case passes on every exception.\<close>

definition Imgur_try_body :: "(unit, imgur_extractor) M" where
  "Imgur_try_body s =
     (if contains ''i.imgur'' (url s)
      then Imgur_extract_direct_link s
      else if contains ''/a/'' (url s)
      then Imgur_extract_album s
      else if contains ''/gallery/'' (url s)
      then try_except Imgur_extract_album (\<lambda>e s1. (Inr (), s1)) s
      else if endswith_any (lower (url s)) media_suffixes
      then Imgur_extract_direct_mislinked s
      else Imgur_extract_single s)"

definition Imgur_extract_content :: "(unit, imgur_extractor) M" where
  "Imgur_extract_content = try_except Imgur_try_body Imgur_handler"

section \<open>Reading the output lists\<close>

text \<open>The \<open>Content\<close> objects of a list of extracted items, and its strings.\<close>

fun contents_of :: "item list \<Rightarrow> content list" where
  "contents_of [] = []"
| "contents_of (ContentObj c # xs) = c # contents_of xs"
| "contents_of (Str m # xs) = contents_of xs"

fun strings_of :: "item list \<Rightarrow> string list" where
  "strings_of [] = []"
| "strings_of (ContentObj c # xs) = strings_of xs"
| "strings_of (Str m # xs) = m # strings_of xs"

text \<open>What a call on an imgur extractor leaves as it was: the post it was built for, its
  client, and the list of posts to retry.\<close>

definition same_post :: "imgur_extractor \<Rightarrow> imgur_extractor \<Rightarrow> bool" where
  "same_post s s1 =
     (url s1 = url s \<and> user s1 = user s \<and> post_title s1 = post_title s \<and>
      subreddit s1 = subreddit s \<and> creation_date s1 = creation_date s \<and>
      name_downloads_by s1 = name_downloads_by s \<and> client s1 = client s \<and>
      failed_extracts_to_save s1 = failed_extracts_to_save s)"

text \<open>The items a call appended: what \<open>extracted_content\<close> holds after the call beyond
  its length before the call.\<close>

definition appended :: "'a extractor_scheme \<Rightarrow> 'a extractor_scheme \<Rightarrow> item list" where
  "appended s s1 = drop (length (extracted_content s)) (extracted_content s1)"

text \<open>A list of items whose \<open>Content\<close> objects from position \<open>n\<close> on all have the file
  name \<open>t\<close>.\<close>

definition titled :: "nat \<Rightarrow> string \<Rightarrow> item list \<Rightarrow> bool" where
  "titled n t xs = (n \<le> length xs \<and> list_all (\<lambda>c. c_file_name c = t) (contents_of (drop n xs)))"

text \<open>An image of an imgur album that the loop of \<open>extract_album\<close> can handle: its link
  has a dot, and it has the attribute \<open>mp4\<close> if it is an animated gif. For such an image,
  the url and the extension the loop computes.\<close>

definition picture_ok :: "picture \<Rightarrow> bool" where
  "picture_ok p =
     (CHR ''.'' \<in> set (link p) \<and>
      (if pic_type p = ''image/gif'' \<and> animated p then mp4 p \<noteq> None else True))"

definition picture_url :: "picture \<Rightarrow> string" where
  "picture_url p =
     (if pic_type p = ''image/gif'' \<and> animated p
      then (case mp4 p of None \<Rightarrow> link p | Some m \<Rightarrow> m)
      else link p)"

definition picture_ext :: "picture \<Rightarrow> string" where
  "picture_ext p =
     (if pic_type p = ''image/gif'' \<and> animated p then ''mp4'' else after_last (link p) CHR ''.'')"

text \<open>The links of the \<open>img\<close> tags of a Vidble page that count as images, in the order of
  the page, and a tag that the loops can handle: reading its class does not fail and its
  link, if it counts, has a dot.\<close>

fun img2_links :: "img list \<Rightarrow> string list" where
  "img2_links [] = []"
| "img2_links (i # imgs) =
     (case img2_link i of
        Inl e \<Rightarrow> img2_links imgs
      | Inr None \<Rightarrow> img2_links imgs
      | Inr (Some l) \<Rightarrow> l # img2_links imgs)"

definition img_ok :: "img \<Rightarrow> bool" where
  "img_ok i =
     (case img2_link i of
        Inl e \<Rightarrow> False
      | Inr None \<Rightarrow> True
      | Inr (Some l) \<Rightarrow> CHR ''.'' \<in> set l)"

text \<open>\<open>str(n)\<close> for a natural number: its decimal digits.\<close>

definition digit_char :: "nat \<Rightarrow> char" where
  "digit_char d = ''0123456789'' ! d"

fun str_nat :: "nat \<Rightarrow> string" where
  "str_nat n = (if n < 10 then [digit_char n] else str_nat (n div 10) @ [digit_char (n mod 10)])"

text \<open>Modelled from the spec: the class \<open>Content\<close> of \<open>Core.Content\<close> is not among the
  sources. The spec gives a content item a computed file name, the base name with an
  optional ordinal suffix; here it is the file name argument followed by the count
  argument as \<open>Content\<close> receives them, the count written in decimal and the empty string
  adding nothing.\<close>

definition Content_file_name :: "content \<Rightarrow> string" where
  "Content_file_name c =
     c_file_name c @ (case c_count c of EmptyStr \<Rightarrow> [] | Num k \<Rightarrow> str_nat k)"


section \<open>Sample posts and hosts\<close>

definition sample_post :: "string \<Rightarrow> string \<Rightarrow> extractor" where
  "sample_post u name_by = Extractor_init u ''bob'' ''My title'' ''pics'' 0 ''folder'' name_by ''/tmp/'' False"

text \<open>A host that answers every request with status 404, and a parser with no image.\<close>

definition host_404 :: env where
  "host_404 =
     \<lparr>requests_get = (\<lambda>u. Inr \<lparr>status_code = 404, content_type = Some ''text/html'',
                                 json_body = Inl ValueError, body_text = []\<rparr>),
      soup_find_all_img = (\<lambda>m. case m of None \<Rightarrow> Inl TypeError | Some x \<Rightarrow> Inr [])\<rparr>"

definition sample_imgur :: "string \<Rightarrow> string \<Rightarrow> imgur_client option \<Rightarrow> imgur_extractor" where
  "sample_imgur u name_by c =
     \<lparr>url = u, user = ''bob'', post_title = ''My title'', subreddit = ''pics'',
      creation_date = 0, save_path = ''/tmp/'', content_display_only = False,
      subreddit_save_method = ''folder'', name_downloads_by = name_by,
      extracted_content = [], failed_extract_messages = [], failed_extracts_to_save = [],
      logged = [], host_calls = [], client = c\<rparr>"

text \<open>An imgur client whose every call raises \<open>e\<close>, with \<open>r\<close> as the remaining credits.\<close>

definition failing_client :: "exn \<Rightarrow> int option \<Rightarrow> imgur_client" where
  "failing_client e r =
     \<lparr>get_image = (\<lambda>i. Inl e), get_album_images = (\<lambda>i. Inl e), client_remaining = r\<rparr>"

text \<open>An imgur client that answers every call with the same image and the same album.\<close>

definition static_client :: "picture \<Rightarrow> picture list \<Rightarrow> imgur_client" where
  "static_client pic pics =
     \<lparr>get_image = (\<lambda>i. Inr pic), get_album_images = (\<lambda>i. Inr pics), client_remaining = None\<rparr>"

definition still_picture :: "string \<Rightarrow> picture" where
  "still_picture u = \<lparr>link = u, pic_type = ''image/jpeg'', animated = False, mp4 = None\<rparr>"

definition animated_picture :: "string \<Rightarrow> string \<Rightarrow> picture" where
  "animated_picture u m = \<lparr>link = u, pic_type = ''image/gif'', animated = True, mp4 = Some m\<rparr>"

text \<open>A host that answers every request with an HTML page on which the parser finds the
  given \<open>img\<close> tags.\<close>

definition host_page :: "img list \<Rightarrow> env" where
  "host_page imgs =
     \<lparr>requests_get = (\<lambda>u. Inr \<lparr>status_code = 200, content_type = Some ''text/html'',
                                 json_body = Inl ValueError, body_text = ''<html>''\<rparr>),
      soup_find_all_img = (\<lambda>m. case m of None \<Rightarrow> Inl TypeError | Some x \<Rightarrow> Inr imgs)\<rparr>"

definition img2 :: "string \<Rightarrow> img" where
  "img2 l = \<lparr>img_class = Some [''img2''], img_src = Some l\<rparr>"

section \<open>Splitting and the handlers\<close>

lemma unpack2_rsplit1:
  "unpack2 (rsplit1 s c) =
     (if c \<in> set s then Inr (before_last s c, after_last s c) else Inl ValueError)"
  by (simp add: rsplit1_def)






lemma Direct_result:
  "Direct_extract_content s =
     (if CHR ''/'' \<in> set (url s) \<and> CHR ''.'' \<in> set (after_last (url s) CHR ''/'')
      then (Inr (),
            append_extracted
              (ContentObj (Content (PStr (url s)) (user s) (post_title s) (subreddit s)
                 (file_name_for s (before_last (after_last (url s) CHR ''/'') CHR ''.''))
                 EmptyStr (''.'' @ after_last (after_last (url s) CHR ''/'') CHR ''.'')
                 (save_path s) (subreddit_save_method s) (creation_date s)
                 (content_display_only s))) s)
      else (Inl ValueError, s))"
  by (simp add: Direct_extract_content_def unpack2_rsplit1)

lemma Gfycat_direct_result:
  "Gfycat_extract_direct_link s =
     (if CHR ''/'' \<in> set (url s) \<and> CHR ''.'' \<in> set (after_last (url s) CHR ''/'')
      then (Inr (),
            append_extracted
              (ContentObj (Content (PStr (url s)) (user s) (post_title s) (subreddit s)
                 (file_name_for s (before_last (after_last (url s) CHR ''/'') CHR ''.''))
                 EmptyStr (''.'' @ after_last (after_last (url s) CHR ''/'') CHR ''.'')
                 (save_path s) (subreddit_save_method s) (creation_date s)
                 (content_display_only s))) s)
      else (Inl ValueError, s))"
  by (simp add: Gfycat_extract_direct_link_def unpack2_rsplit1)

section \<open>What the imgur methods leave unchanged\<close>

lemma same_post_refl [simp]: "same_post s s"
  by (simp add: same_post_def)

lemma same_post_append [simp]: "same_post s (append_extracted x s1) = same_post s s1"
  by (simp add: same_post_def append_extracted_def)

lemma same_post_sent [simp]: "same_post s (sent c s1) = same_post s s1"
  by (simp add: same_post_def sent_def)

lemma same_post_log_error [simp]: "same_post s (log_error m s1) = same_post s s1"
  by (simp add: same_post_def log_error_def)

lemma same_post_messages [simp]:
  "same_post s (s1\<lparr>failed_extract_messages := ms\<rparr>) = same_post s s1"
  by (simp add: same_post_def)

lemma same_post_append_left [simp]: "same_post (append_extracted x s) s1 = same_post s s1"
  by (simp add: same_post_def append_extracted_def)

lemma same_post_sent_left [simp]: "same_post (sent c s) s1 = same_post s s1"
  by (simp add: same_post_def sent_def)

lemma resolve_gif_same_post: "resolve_gif u i x s = (r, s1) \<Longrightarrow> same_post s s1"
  by (auto simp: resolve_gif_def client_get_image_def
      split: option.splits sum.splits prod.splits if_splits)

lemma resolve_gif_no_client:
  "resolve_gif u i x s = (r, s1) \<Longrightarrow> client s = None \<Longrightarrow>
     s1 = s \<and>
     (r = Inl AttributeError \<or> (r = Inr (u, x) \<and> \<not> (endswith u ''gifv'' \<or> endswith u ''gif'')))"
  by (auto simp: resolve_gif_def client_get_image_def
      split: option.splits sum.splits prod.splits if_splits)

lemma resolve_gif_messages:
  "resolve_gif u i x s = (r, s1) \<Longrightarrow>
     failed_extract_messages s1 = failed_extract_messages s \<and> logged s1 = logged s \<and>
     extracted_content s1 = extracted_content s"
  by (auto simp: resolve_gif_def client_get_image_def sent_def
      split: option.splits sum.splits prod.splits if_splits)

lemma resolve_mp4_error: "resolve_mp4 p x = Inl e \<Longrightarrow> e = AttributeError"
  by (simp add: resolve_mp4_def split: if_splits option.splits)

lemma album_loop_same_post: "Imgur_album_loop a n pics s = (r, s1) \<Longrightarrow> same_post s s1"
proof (induction pics arbitrary: n s)
  case Nil
  then show ?case by auto
next
  case (Cons p pics)
  then show ?case
    by (auto split: sum.splits prod.splits dest!: Cons.IH)
qed

lemma album_loop_frame:
  "Imgur_album_loop a n pics s = (r, s1) \<Longrightarrow>
     host_calls s1 = host_calls s \<and> failed_extract_messages s1 = failed_extract_messages s \<and>
     logged s1 = logged s"
proof (induction pics arbitrary: n s)
  case Nil
  then show ?case by auto
next
  case (Cons p pics)
  then show ?case
    by (auto simp: append_extracted_def split: sum.splits prod.splits dest!: Cons.IH)
qed

lemma extract_album_same_post: "Imgur_extract_album s = (r, s1) \<Longrightarrow> same_post s s1"
  by (auto simp: Imgur_extract_album_def client_get_album_images_def unpack2_rsplit1
      split: option.splits sum.splits prod.splits if_splits dest!: album_loop_same_post)

lemma extract_album_frame:
  "Imgur_extract_album s = (r, s1) \<Longrightarrow>
     failed_extract_messages s1 = failed_extract_messages s \<and> logged s1 = logged s"
  by (auto simp: Imgur_extract_album_def client_get_album_images_def unpack2_rsplit1 sent_def
      split: option.splits sum.splits prod.splits if_splits dest!: album_loop_frame)

lemma extract_album_no_client:
  "Imgur_extract_album s = (r, s1) \<Longrightarrow> client s = None \<Longrightarrow>
     s1 = s \<and> (r = Inl ValueError \<or> r = Inl AttributeError)"
  by (auto simp: Imgur_extract_album_def client_get_album_images_def unpack2_rsplit1
      split: option.splits sum.splits prod.splits if_splits)

lemma extract_single_same_post: "Imgur_extract_single s = (r, s1) \<Longrightarrow> same_post s s1"
  by (auto simp: Imgur_extract_single_def client_get_image_def unpack2_rsplit1
      split: option.splits sum.splits prod.splits if_splits)

lemma extract_single_frame:
  "Imgur_extract_single s = (r, s1) \<Longrightarrow>
     failed_extract_messages s1 = failed_extract_messages s \<and> logged s1 = logged s"
  by (auto simp: Imgur_extract_single_def client_get_image_def unpack2_rsplit1 sent_def
      append_extracted_def
      split: option.splits sum.splits prod.splits if_splits)

lemma extract_single_no_client:
  "Imgur_extract_single s = (r, s1) \<Longrightarrow> client s = None \<Longrightarrow>
     s1 = s \<and> (r = Inl ValueError \<or> r = Inl AttributeError)"
  by (auto simp: Imgur_extract_single_def client_get_image_def unpack2_rsplit1
      split: option.splits sum.splits prod.splits if_splits)

lemma direct_link_same_post: "Imgur_extract_direct_link s = (r, s1) \<Longrightarrow> same_post s s1"
  by (auto simp: Imgur_extract_direct_link_def try_except_def name_error_handler_def
      unpack2_rsplit1
      split: option.splits sum.splits prod.splits if_splits dest!: resolve_gif_same_post)

lemma direct_mislinked_same_post:
  "Imgur_extract_direct_mislinked s = (r, s1) \<Longrightarrow> same_post s s1"
  by (auto simp: Imgur_extract_direct_mislinked_def try_except_def name_error_handler_def
      unpack2_rsplit1
      split: option.splits sum.splits prod.splits if_splits dest!: resolve_gif_same_post)

lemma direct_link_raises:
  "Imgur_extract_direct_link s = (Inl e, s1) \<Longrightarrow>
     failed_extract_messages s1 = failed_extract_messages s \<and> logged s1 = logged s"
  by (auto simp: Imgur_extract_direct_link_def try_except_def name_error_handler_def
      unpack2_rsplit1
      split: option.splits sum.splits prod.splits if_splits dest!: resolve_gif_messages)

lemma direct_mislinked_raises:
  "Imgur_extract_direct_mislinked s = (Inl e, s1) \<Longrightarrow>
     failed_extract_messages s1 = failed_extract_messages s \<and> logged s1 = logged s"
  by (auto simp: Imgur_extract_direct_mislinked_def try_except_def name_error_handler_def
      unpack2_rsplit1
      split: option.splits sum.splits prod.splits if_splits dest!: resolve_gif_messages)

lemma direct_link_no_client:
  "Imgur_extract_direct_link s = (r, s1) \<Longrightarrow> client s = None \<Longrightarrow>
     host_calls s1 = host_calls s \<and> (r = Inr () \<or> r = Inl ValueError \<or> r = Inl AttributeError)"
  by (auto simp: Imgur_extract_direct_link_def try_except_def name_error_handler_def
      unpack2_rsplit1 log_error_def append_extracted_def
      split: option.splits sum.splits prod.splits if_splits dest!: resolve_gif_no_client)

lemma direct_mislinked_no_client:
  "Imgur_extract_direct_mislinked s = (r, s1) \<Longrightarrow> client s = None \<Longrightarrow>
     host_calls s1 = host_calls s \<and> (r = Inr () \<or> r = Inl ValueError \<or> r = Inl AttributeError)"
  by (auto simp: Imgur_extract_direct_mislinked_def try_except_def name_error_handler_def
      unpack2_rsplit1 log_error_def append_extracted_def
      split: option.splits sum.splits prod.splits if_splits dest!: resolve_gif_no_client)

lemma try_body_same_post: "Imgur_try_body s = (r, s1) \<Longrightarrow> same_post s s1"
  by (auto simp: Imgur_try_body_def try_except_def
      split: if_splits sum.splits prod.splits
      dest: direct_link_same_post extract_album_same_post direct_mislinked_same_post
        extract_single_same_post)

lemma try_body_raises:
  "Imgur_try_body s = (Inl e, s1) \<Longrightarrow>
     failed_extract_messages s1 = failed_extract_messages s \<and> logged s1 = logged s"
  by (auto simp: Imgur_try_body_def try_except_def
      split: if_splits sum.splits prod.splits
      dest: direct_link_raises extract_album_frame direct_mislinked_raises
        extract_single_frame)

lemma try_body_no_client:
  "Imgur_try_body s = (r, s1) \<Longrightarrow> client s = None \<Longrightarrow>
     host_calls s1 = host_calls s \<and> (r = Inr () \<or> r = Inl ValueError \<or> r = Inl AttributeError)"
  by (auto simp: Imgur_try_body_def try_except_def
      split: if_splits sum.splits prod.splits
      dest: direct_link_no_client extract_album_no_client direct_mislinked_no_client
        extract_single_no_client)


lemma host_calls_errors [simp]:
  "host_calls (rate_limit_exceeded_error s) = host_calls s"
  "host_calls (no_credit_error s) = host_calls s"
  "host_calls (over_capacity_error s) = host_calls s"
  "host_calls (does_not_exist_error s) = host_calls s"
  "host_calls (failed_to_locate_error s) = host_calls s"
  by (simp_all add: rate_limit_exceeded_error_def no_credit_error_def over_capacity_error_def
      does_not_exist_error_def failed_to_locate_error_def log_error_def log_warning_def)

lemma handler_host_calls: "host_calls (snd (Imgur_handler e s)) = host_calls s"
  by (cases e) (auto simp: Imgur_handler_def Let_def split: option.splits)



lemma Imgur_no_client_no_calls:
  assumes "client s = None"
  shows "host_calls (snd (Imgur_extract_content s)) = host_calls s"
proof (cases "Imgur_try_body s")
  case (Pair r s1)
  from try_body_no_client [OF Pair assms] have h: "host_calls s1 = host_calls s" by simp
  show ?thesis
    using Pair h
    by (cases r) (simp_all add: Imgur_extract_content_def try_except_def handler_host_calls)
qed



section \<open>The reddit uploads extractor\<close>

lemma RedditUploads_result:
  "RedditUploads_extract_content s =
     (Inr (),
      append_extracted
        (ContentObj (Content (PStr (url s @ ''.jpg'')) (user s) (post_title s) (subreddit s)
           (post_title s) EmptyStr ''.jpg'' (save_path s) (subreddit_save_method s)
           (creation_date s) (content_display_only s))) s)"
  by (simp add: RedditUploads_extract_content_def try_except_def)

text \<open>
  C10. \<open>RedditUploadsExtractor.extract_content\<close> appends one item whose file name is the
  post title, whatever the naming policy \<open>name_downloads_by\<close> holds: the item is the same
  for every value \<open>n\<close> of that field.
\<close>

theorem RedditUploads_file_name_is_title:
  "extracted_content (snd (RedditUploads_extract_content (s\<lparr>name_downloads_by := n\<rparr>))) =
     extracted_content s @
       [ContentObj (Content (PStr (url s @ ''.jpg'')) (user s) (post_title s) (subreddit s)
          (post_title s) EmptyStr ''.jpg'' (save_path s) (subreddit_save_method s)
          (creation_date s) (content_display_only s))]
   \<and> c_file_name (Content (PStr (url s @ ''.jpg'')) (user s) (post_title s) (subreddit s)
          (post_title s) EmptyStr ''.jpg'' (save_path s) (subreddit_save_method s)
          (creation_date s) (content_display_only s)) = post_title s
   \<and> fst (RedditUploads_extract_content (s\<lparr>name_downloads_by := n\<rparr>)) = Inr ()"
  by (simp add: RedditUploads_result append_extracted_def Content_def)

section \<open>No exception leaves an entry point but that of the direct extractor\<close>





section \<open>The failure table of the imgur extractor\<close>

lemma messages_errors:
  "failed_extract_messages (rate_limit_exceeded_error s) = failed_extract_messages s @ [rate_limit_message s]"
  "failed_extract_messages (no_credit_error s) = failed_extract_messages s @ [no_credit_message s]"
  "failed_extract_messages (over_capacity_error s) = failed_extract_messages s @ [over_capacity_message s]"
  "failed_extract_messages (does_not_exist_error s) = failed_extract_messages s @ [does_not_exist_message s]"
  "failed_extract_messages (failed_to_locate_error s) = failed_extract_messages s @ [imgur_failed_to_locate_message s]"
  by (simp_all add: rate_limit_exceeded_error_def no_credit_error_def over_capacity_error_def
      does_not_exist_error_def failed_to_locate_error_def log_error_def log_warning_def)

lemma retries_errors:
  "failed_extracts_to_save (rate_limit_exceeded_error s) = failed_extracts_to_save s @ [this_post s]"
  "failed_extracts_to_save (no_credit_error s) = failed_extracts_to_save s @ [this_post s]"
  "failed_extracts_to_save (over_capacity_error s) = failed_extracts_to_save s @ [this_post s]"
  "failed_extracts_to_save (does_not_exist_error s) = failed_extracts_to_save s"
  "failed_extracts_to_save (failed_to_locate_error s) = failed_extracts_to_save s"
  by (simp_all add: rate_limit_exceeded_error_def no_credit_error_def over_capacity_error_def
      does_not_exist_error_def failed_to_locate_error_def log_error_def log_warning_def)

lemma same_post_messages_eq:
  "same_post s s1 \<Longrightarrow>
     rate_limit_message s1 = rate_limit_message s \<and> no_credit_message s1 = no_credit_message s \<and>
     over_capacity_message s1 = over_capacity_message s \<and>
     does_not_exist_message s1 = does_not_exist_message s \<and>
     imgur_failed_to_locate_message s1 = imgur_failed_to_locate_message s \<and>
     this_post s1 = this_post s"
  by (simp add: same_post_def rate_limit_message_def no_credit_message_def
      over_capacity_message_def does_not_exist_message_def imgur_failed_to_locate_message_def
      this_post_def)

text \<open>
  The rows that the handler of \<open>ImgurExtractor.extract_content\<close> does have. When the body
  of the \<open>try\<close> statement raises \<open>e\<close> (so on every path but the gallery path, which
  passes over what it raises), the call appends: for status 403, which reads the credits of
  the client, one failed-to-locate message when the remaining credits are unknown or
  positive, one no-credits message and one post to retry when they are at most 0; for 429
  one rate-limit message and one post to retry; for 500 one over-capacity message and one
  post to retry; for 404 one does-not-exist message and no post to retry; for the
  rate-limit error type one rate-limit message and one post to retry; for an exception
  that is no imgur error one failed-to-locate message and no post to retry.
\<close>

lemma Imgur_error_table:
  assumes body: "fst (Imgur_try_body s) = Inl e"
  shows
    "(e = ImgurClientError (Some 403) \<longrightarrow>
        (\<forall>c. client s = Some c \<longrightarrow>
           failed_extract_messages (snd (Imgur_extract_content s)) =
             failed_extract_messages s @
               (case client_remaining c of
                  None \<Rightarrow> [imgur_failed_to_locate_message s]
                | Some r \<Rightarrow>
                    if r \<le> 0 then [no_credit_message s] else [imgur_failed_to_locate_message s]) \<and>
           failed_extracts_to_save (snd (Imgur_extract_content s)) =
             failed_extracts_to_save s @
               (case client_remaining c of
                  None \<Rightarrow> []
                | Some r \<Rightarrow> if r \<le> 0 then [this_post s] else [])))
   \<and> (e = ImgurClientError (Some 429) \<longrightarrow>
        failed_extract_messages (snd (Imgur_extract_content s)) =
          failed_extract_messages s @ [rate_limit_message s] \<and>
        failed_extracts_to_save (snd (Imgur_extract_content s)) =
          failed_extracts_to_save s @ [this_post s])
   \<and> (e = ImgurClientError (Some 500) \<longrightarrow>
        failed_extract_messages (snd (Imgur_extract_content s)) =
          failed_extract_messages s @ [over_capacity_message s] \<and>
        failed_extracts_to_save (snd (Imgur_extract_content s)) =
          failed_extracts_to_save s @ [this_post s])
   \<and> (e = ImgurClientError (Some 404) \<longrightarrow>
        failed_extract_messages (snd (Imgur_extract_content s)) =
          failed_extract_messages s @ [does_not_exist_message s] \<and>
        failed_extracts_to_save (snd (Imgur_extract_content s)) = failed_extracts_to_save s)
   \<and> (e = ImgurClientRateLimitError \<longrightarrow>
        failed_extract_messages (snd (Imgur_extract_content s)) =
          failed_extract_messages s @ [rate_limit_message s] \<and>
        failed_extracts_to_save (snd (Imgur_extract_content s)) =
          failed_extracts_to_save s @ [this_post s])
   \<and> ((\<forall>sc. e \<noteq> ImgurClientError sc) \<and> e \<noteq> ImgurClientRateLimitError \<longrightarrow>
        failed_extract_messages (snd (Imgur_extract_content s)) =
          failed_extract_messages s @ [imgur_failed_to_locate_message s] \<and>
        failed_extracts_to_save (snd (Imgur_extract_content s)) = failed_extracts_to_save s)"
proof -
  obtain s1 where b: "Imgur_try_body s = (Inl e, s1)"
    using body by (cases "Imgur_try_body s") auto
  have sp: "same_post s s1" using b by (rule try_body_same_post)
  have ms: "failed_extract_messages s1 = failed_extract_messages s"
    using try_body_raises [OF b] by simp
  have rs: "failed_extracts_to_save s1 = failed_extracts_to_save s"
    and c1: "client s1 = client s"
    using sp by (simp_all add: same_post_def)
  have run: "Imgur_extract_content s = Imgur_handler e s1"
    using b by (simp add: Imgur_extract_content_def try_except_def)
  note eqs = same_post_messages_eq [OF sp]
  show ?thesis
    unfolding run
    by (cases e)
       (auto simp: Imgur_handler_def Let_def c1 ms rs eqs messages_errors retries_errors
          split: option.splits)
qed

lemma Imgur_error_table_samples:
  "failed_extract_messages
     (snd (Imgur_extract_content
             (sample_imgur ''https://imgur.com/abc'' ''Post Title''
                (Some (failing_client (ImgurClientError (Some 429)) None))))) =
     [rate_limit_message
        (sample_imgur ''https://imgur.com/abc'' ''Post Title''
           (Some (failing_client (ImgurClientError (Some 429)) None)))]
   \<and> failed_extracts_to_save
     (snd (Imgur_extract_content
             (sample_imgur ''https://imgur.com/abc'' ''Post Title''
                (Some (failing_client (ImgurClientError (Some 429)) None))))) =
     [Post ''https://imgur.com/abc'' ''bob'' ''My title'' ''pics'' 0]
   \<and> failed_extract_messages
     (snd (Imgur_extract_content
             (sample_imgur ''https://imgur.com/abc'' ''Post Title''
                (Some (failing_client (ImgurClientError (Some 403)) (Some 0)))))) =
     [no_credit_message
        (sample_imgur ''https://imgur.com/abc'' ''Post Title''
           (Some (failing_client (ImgurClientError (Some 403)) (Some 0))))]
   \<and> failed_extracts_to_save
     (snd (Imgur_extract_content
             (sample_imgur ''https://imgur.com/abc'' ''Post Title''
                (Some (failing_client (ImgurClientError (Some 403)) (Some 0)))))) =
     [Post ''https://imgur.com/abc'' ''bob'' ''My title'' ''pics'' 0]
   \<and> failed_extract_messages
     (snd (Imgur_extract_content
             (sample_imgur ''abc'' ''Post Title''
                (Some (failing_client ImgurClientRateLimitError None))))) =
     [imgur_failed_to_locate_message
        (sample_imgur ''abc'' ''Post Title''
           (Some (failing_client ImgurClientRateLimitError None)))]"
  using Imgur_error_table
          [of "sample_imgur ''https://imgur.com/abc'' ''Post Title''
                 (Some (failing_client (ImgurClientError (Some 429)) None))"
              "ImgurClientError (Some 429)"]
        Imgur_error_table
          [of "sample_imgur ''https://imgur.com/abc'' ''Post Title''
                 (Some (failing_client (ImgurClientError (Some 403)) (Some 0)))"
              "ImgurClientError (Some 403)"]
        Imgur_error_table
          [of "sample_imgur ''abc'' ''Post Title''
                 (Some (failing_client ImgurClientRateLimitError None))"
              ValueError]
  by (simp add: Imgur_try_body_def startswith_def endswith_any_def endswith_def lower_def
      lower_char_def media_suffixes_def Imgur_extract_single_def unpack2_rsplit1 after_last_def
      client_get_image_def sample_imgur_def failing_client_def this_post_def)

text \<open>
  On the gallery path the handler is not reached: the album request that fails with status
  429 leaves no message and no post to retry.
\<close>

lemma Imgur_gallery_rate_limit_not_recorded:
  "fst (Imgur_extract_album
          (sample_imgur ''https://imgur.com/gallery/xyz'' ''Post Title''
             (Some (failing_client (ImgurClientError (Some 429)) None)))) =
     Inl (ImgurClientError (Some 429))
   \<and> failed_extract_messages
       (snd (Imgur_extract_content
               (sample_imgur ''https://imgur.com/gallery/xyz'' ''Post Title''
                  (Some (failing_client (ImgurClientError (Some 429)) None))))) = []
   \<and> failed_extracts_to_save
       (snd (Imgur_extract_content
               (sample_imgur ''https://imgur.com/gallery/xyz'' ''Post Title''
                  (Some (failing_client (ImgurClientError (Some 429)) None))))) = []"
  by (simp add: Imgur_extract_content_def Imgur_try_body_def try_except_def startswith_def
      Imgur_extract_album_def unpack2_rsplit1 after_last_def client_get_album_images_def
      sample_imgur_def failing_client_def sent_def)

text \<open>
  C2 asks that every error of the imgur client leave exactly one recorded outcome, and that
  an error the table does not list leave one failed-to-locate message. The handler tests
  the status against 403, 429, 500 and 404 in four \<open>if\<close> statements with no \<open>else\<close>. On
  the single-image path, a request that fails with an \<open>ImgurClientError\<close> of status 400
  reaches the handler and leaves no failure message, no post to retry, no item and no log
  entry: only the request was sent.
\<close>

theorem Imgur_unlisted_status_records_nothing:
  "fst (Imgur_try_body
          (sample_imgur ''https://imgur.com/abc'' ''Post Title''
             (Some (failing_client (ImgurClientError (Some 400)) None)))) =
     Inl (ImgurClientError (Some 400))
   \<and> Imgur_extract_content
       (sample_imgur ''https://imgur.com/abc'' ''Post Title''
          (Some (failing_client (ImgurClientError (Some 400)) None))) =
     (Inr (),
      (sample_imgur ''https://imgur.com/abc'' ''Post Title''
          (Some (failing_client (ImgurClientError (Some 400)) None)))
        \<lparr>host_calls := [GetImage ''abc'']\<rparr>)
   \<and> failed_extract_messages
       (sample_imgur ''https://imgur.com/abc'' ''Post Title''
          (Some (failing_client (ImgurClientError (Some 400)) None))) = []
   \<and> failed_extracts_to_save
       (sample_imgur ''https://imgur.com/abc'' ''Post Title''
          (Some (failing_client (ImgurClientError (Some 400)) None))) = []
   \<and> extracted_content
       (sample_imgur ''https://imgur.com/abc'' ''Post Title''
          (Some (failing_client (ImgurClientError (Some 400)) None))) = []
   \<and> logged
       (sample_imgur ''https://imgur.com/abc'' ''Post Title''
          (Some (failing_client (ImgurClientError (Some 400)) None))) = []"
  by (simp add: Imgur_extract_content_def Imgur_try_body_def try_except_def startswith_def
      endswith_any_def endswith_def lower_def lower_char_def media_suffixes_def
      Imgur_extract_single_def unpack2_rsplit1 after_last_def client_get_image_def
      Imgur_handler_def Let_def sample_imgur_def failing_client_def sent_def)


section \<open>Requests that fail\<close>

lemma get_json_good:
  assumes "requests_get env u = Inr r" and "good_response ''json'' r = Inr True"
  shows "get_json env u s = (json_body r, sent (HttpGet u) s)"
  using assms by (simp add: get_json_def)

lemma get_json_bad:
  assumes "requests_get env u = Inr r" and "good_response ''json'' r = Inr False"
  shows "get_json env u s =
     (Inr PNone,
      append_extracted (Str (json_failed_message u s))
        (log_error ''Failed connection: Bad response'' (sent (HttpGet u) s)))"
  using assms by (simp add: get_json_def json_failed_message_def sent_def)

lemma get_text_bad:
  assumes "requests_get env u = Inr r" and "good_response ''text'' r = Inr False"
  shows "get_text env u s =
     (Inr None,
      append_extracted (Str (text_failed_message u s))
        (log_error ''Failed connection: Bad response'' (sent (HttpGet u) s)))"
  using assms by (simp add: get_text_def text_failed_message_def sent_def)

text \<open>
  C4 asks that a failed request append its message to the list of failure messages and
  nothing to the list of content items. On a response with status 404, \<open>get_json\<close> and
  \<open>get_text\<close> return \<open>None\<close> and log the failure, but the message is appended to
  \<open>extracted_content\<close>, and \<open>failed_extract_messages\<close> stays empty.
\<close>

theorem get_json_failure_goes_to_extracted_content:
  "fst (get_json host_404 ''https://gfycat.com/cajax/get/abc''
          (sample_post ''https://gfycat.com/abc'' ''Post Title'')) = Inr PNone
   \<and> extracted_content
       (snd (get_json host_404 ''https://gfycat.com/cajax/get/abc''
               (sample_post ''https://gfycat.com/abc'' ''Post Title''))) =
     [Str (json_failed_message ''https://gfycat.com/cajax/get/abc''
             (sample_post ''https://gfycat.com/abc'' ''Post Title''))]
   \<and> failed_extract_messages
       (snd (get_json host_404 ''https://gfycat.com/cajax/get/abc''
               (sample_post ''https://gfycat.com/abc'' ''Post Title''))) = []
   \<and> logged
       (snd (get_json host_404 ''https://gfycat.com/cajax/get/abc''
               (sample_post ''https://gfycat.com/abc'' ''Post Title''))) =
     [LogError ''Failed connection: Bad response'']
   \<and> fst (get_text host_404 ''https://vidble.com/album/abc''
          (sample_post ''https://vidble.com/album/abc'' ''Post Title'')) = Inr None
   \<and> extracted_content
       (snd (get_text host_404 ''https://vidble.com/album/abc''
               (sample_post ''https://vidble.com/album/abc'' ''Post Title''))) =
     [Str (text_failed_message ''https://vidble.com/album/abc''
             (sample_post ''https://vidble.com/album/abc'' ''Post Title''))]
   \<and> failed_extract_messages
       (snd (get_text host_404 ''https://vidble.com/album/abc''
               (sample_post ''https://vidble.com/album/abc'' ''Post Title''))) = []"
  by (simp add: get_json_def get_text_def host_404_def good_response_def sent_def
      append_extracted_def log_error_def json_failed_message_def text_failed_message_def
      sample_post_def Extractor_init_def)

section \<open>The Gfycat extractor\<close>

lemma Gfycat_null_json:
  assumes "\<not> endswith_any (lower (url s)) [''webm'', ''gif'', ''gifv'']"
    and "CHR ''/'' \<in> set (url s)"
    and "requests_get env (api_caller @ after_last (url s) CHR ''/'') = Inr r"
    and "good_response ''json'' r = Inr False"
  shows "extracted_content (snd (Gfycat_extract_content env s)) =
           extracted_content s @
             [Str (json_failed_message (api_caller @ after_last (url s) CHR ''/'') s),
              Str (failed_to_locate_message s)]
         \<and> failed_extract_messages (snd (Gfycat_extract_content env s)) =
             failed_extract_messages s"
  using assms
  by (simp add: Gfycat_extract_content_def try_except_def Gfycat_extract_single_def
      unpack2_rsplit1 get_json_bad locate_handler_def append_extracted_def log_error_def
      sent_def failed_to_locate_message_def)

text \<open>
  C9 asks that a request answered with no JSON stop the extraction with the one message
  \<open>get_json\<close> recorded. On a response with status 404 the Gfycat extractor goes on with the
  \<open>None\<close> that \<open>get_json\<close> returned, \<open>None.get\<close> raises, and the handler of
  \<open>extract_content\<close> appends a second message: two strings are appended, both to
  \<open>extracted_content\<close>, none to \<open>failed_extract_messages\<close>.
\<close>

theorem Gfycat_null_json_records_twice:
  "extracted_content
     (snd (Gfycat_extract_content host_404
             (sample_post ''https://gfycat.com/abc'' ''Post Title''))) =
     [Str (json_failed_message ''https://gfycat.com/cajax/get/abc''
             (sample_post ''https://gfycat.com/abc'' ''Post Title'')),
      Str (failed_to_locate_message (sample_post ''https://gfycat.com/abc'' ''Post Title''))]
   \<and> failed_extract_messages
       (snd (Gfycat_extract_content host_404
               (sample_post ''https://gfycat.com/abc'' ''Post Title''))) = []
   \<and> host_calls
       (snd (Gfycat_extract_content host_404
               (sample_post ''https://gfycat.com/abc'' ''Post Title''))) =
     [HttpGet ''https://gfycat.com/cajax/get/abc'']"
  by (simp add: Gfycat_extract_content_def try_except_def endswith_any_def endswith_def
      lower_def lower_char_def Gfycat_extract_single_def unpack2_rsplit1 after_last_def
      get_json_def host_404_def good_response_def locate_handler_def append_extracted_def
      log_error_def sent_def failed_to_locate_message_def json_failed_message_def
      api_caller_def sample_post_def Extractor_init_def)

text \<open>
  C8, as the code has it. For a url that ends, in lower case, with \<open>webm\<close>, \<open>gif\<close> or
  \<open>gifv\<close>, \<open>GfycatExtractor.extract_content\<close> returns and sends no request. When the
  url contains a \<open>/\<close> and the text after its last \<open>/\<close> contains a \<open>.\<close>, it appends
  exactly one item: its url is the url of the post, its extension is a dot and the text
  after the last dot, as written. Otherwise it appends no item, only the message of its
  handler.
\<close>

theorem Gfycat_direct_link_one_item:
  assumes "endswith_any (lower (url s)) [''webm'', ''gif'', ''gifv'']"
  shows "fst (Gfycat_extract_content env s) = Inr ()
         \<and> host_calls (snd (Gfycat_extract_content env s)) = host_calls s
         \<and> (CHR ''/'' \<in> set (url s) \<and> CHR ''.'' \<in> set (after_last (url s) CHR ''/'') \<longrightarrow>
              extracted_content (snd (Gfycat_extract_content env s)) =
                extracted_content s @
                  [ContentObj (Content (PStr (url s)) (user s) (post_title s) (subreddit s)
                     (file_name_for s (before_last (after_last (url s) CHR ''/'') CHR ''.''))
                     EmptyStr (''.'' @ after_last (after_last (url s) CHR ''/'') CHR ''.'')
                     (save_path s) (subreddit_save_method s) (creation_date s)
                     (content_display_only s))])
         \<and> (\<not> (CHR ''/'' \<in> set (url s) \<and> CHR ''.'' \<in> set (after_last (url s) CHR ''/'')) \<longrightarrow>
              extracted_content (snd (Gfycat_extract_content env s)) =
                extracted_content s @ [Str (failed_to_locate_message s)])"
  using assms
  by (simp add: Gfycat_extract_content_def try_except_def Gfycat_direct_result
      append_extracted_def locate_handler_def log_error_def failed_to_locate_message_def)

theorem Gfycat_direct_link_one_item_witness:
  "extracted_content
     (snd (Gfycat_extract_content host_404
             (sample_post ''https://gfycat.com/abc123.GIFV'' ''Post Title''))) =
     [ContentObj (Content (PStr ''https://gfycat.com/abc123.GIFV'') ''bob'' ''My title'' ''pics''
        ''My title'' EmptyStr ''.GIFV'' ''/tmp/'' ''folder'' 0 False)]
   \<and> host_calls
       (snd (Gfycat_extract_content host_404
               (sample_post ''https://gfycat.com/abc123.GIFV'' ''Post Title''))) = []
   \<and> extracted_content
       (snd (Gfycat_extract_content host_404 (sample_post ''clip.webm'' ''Post Title''))) =
     [Str (failed_to_locate_message (sample_post ''clip.webm'' ''Post Title''))]"
  using Gfycat_direct_link_one_item
          [of "sample_post ''https://gfycat.com/abc123.GIFV'' ''Post Title''" host_404]
        Gfycat_direct_link_one_item [of "sample_post ''clip.webm'' ''Post Title''" host_404]
  by (simp add: endswith_any_def endswith_def lower_def lower_char_def after_last_def
      before_last_def file_name_for_def sample_post_def Extractor_init_def)

text \<open>
  The claim as it is written covers every url that ends with \<open>gif\<close>. The url below does,
  in lower case, but the text after its last \<open>/\<close> has no dot: the split raises, the
  handler appends its message, and no content item is appended.
\<close>

theorem Gfycat_gif_suffix_without_dot_no_item:
  "endswith_any (lower ''https://gfycat.com/FancyGif'') [''webm'', ''gif'', ''gifv'']
   \<and> contents_of
       (extracted_content
          (snd (Gfycat_extract_content host_404
                  (sample_post ''https://gfycat.com/FancyGif'' ''Post Title'')))) = []
   \<and> strings_of
       (extracted_content
          (snd (Gfycat_extract_content host_404
                  (sample_post ''https://gfycat.com/FancyGif'' ''Post Title'')))) =
     [failed_to_locate_message (sample_post ''https://gfycat.com/FancyGif'' ''Post Title'')]"
  by (simp add: Gfycat_extract_content_def try_except_def endswith_any_def endswith_def
      lower_def lower_char_def Gfycat_direct_result after_last_def locate_handler_def
      append_extracted_def log_error_def failed_to_locate_message_def sample_post_def
      Extractor_init_def)


section \<open>The order of the tests of the imgur extractor\<close>

lemma startswith_set: "startswith s p \<Longrightarrow> set p \<subseteq> set s"
  unfolding startswith_def by (metis set_take_subset)

lemma contains_set: "contains sub s \<Longrightarrow> set sub \<subseteq> set s"
proof (induction s)
  case Nil
  then show ?case by simp
next
  case (Cons c cs)
  from Cons.prems have "startswith (c # cs) sub \<or> contains sub cs" by simp
  then show ?case
  proof
    assume "startswith (c # cs) sub"
    then show ?thesis by (rule startswith_set)
  next
    assume "contains sub cs"
    then have "set sub \<subseteq> set cs" by (rule Cons.IH)
    then show ?thesis by auto
  qed
qed

lemma album_loop_host_calls: "host_calls (snd (Imgur_album_loop a n pics s)) = host_calls s"
  using album_loop_frame [of a n pics s] by (cases "Imgur_album_loop a n pics s") simp

lemma extract_album_host_calls:
  assumes "CHR ''/'' \<in> set (url s)" and "client s = Some c"
  shows "host_calls (snd (Imgur_extract_album s)) =
           host_calls s @ [GetAlbumImages (after_last (url s) CHR ''/'')]"
  using assms
  by (simp add: Imgur_extract_album_def unpack2_rsplit1 client_get_album_images_def
      album_loop_host_calls sent_def split: sum.splits)

text \<open>
  C5, as the code has it. The body of \<open>ImgurExtractor.extract_content\<close> tests the url
  in a fixed order and the first test that holds decides: \<open>i.imgur\<close> in the url (direct
  link), then \<open>/a/\<close> (album), then \<open>/gallery/\<close> (album, every exception passed over), then
  a media suffix of the lower-cased url (mislinked direct link), else a single image. A
  url that contains \<open>/a/\<close> and ends with \<open>.png\<close> takes the album path provided it does
  not contain \<open>i.imgur\<close>: the one request it sends is for the images of the album.
\<close>

theorem Imgur_classification_order:
  "(contains ''i.imgur'' (url s) \<longrightarrow> Imgur_try_body s = Imgur_extract_direct_link s)
   \<and> (\<not> contains ''i.imgur'' (url s) \<and> contains ''/a/'' (url s) \<longrightarrow>
        Imgur_try_body s = Imgur_extract_album s)
   \<and> (\<not> contains ''i.imgur'' (url s) \<and> \<not> contains ''/a/'' (url s) \<and>
       contains ''/gallery/'' (url s) \<longrightarrow>
        Imgur_try_body s = try_except Imgur_extract_album (\<lambda>e s1. (Inr (), s1)) s)
   \<and> (\<not> contains ''i.imgur'' (url s) \<and> \<not> contains ''/a/'' (url s) \<and>
       \<not> contains ''/gallery/'' (url s) \<and> endswith_any (lower (url s)) media_suffixes \<longrightarrow>
        Imgur_try_body s = Imgur_extract_direct_mislinked s)
   \<and> (\<not> contains ''i.imgur'' (url s) \<and> \<not> contains ''/a/'' (url s) \<and>
       \<not> contains ''/gallery/'' (url s) \<and> \<not> endswith_any (lower (url s)) media_suffixes \<longrightarrow>
        Imgur_try_body s = Imgur_extract_single s)
   \<and> (\<not> contains ''i.imgur'' (url s) \<and> contains ''/a/'' (url s) \<and> endswith (url s) ''.png'' \<longrightarrow>
        Imgur_try_body s = Imgur_extract_album s \<and>
        (\<forall>c. client s = Some c \<longrightarrow>
           host_calls (snd (Imgur_extract_content s)) =
             host_calls s @ [GetAlbumImages (after_last (url s) CHR ''/'')]))"
proof -
  have "host_calls (snd (Imgur_extract_content s)) =
          host_calls s @ [GetAlbumImages (after_last (url s) CHR ''/'')]"
    if a: "\<not> contains ''i.imgur'' (url s)" "contains ''/a/'' (url s)" and c: "client s = Some c"
    for c
  proof -
    have sl: "CHR ''/'' \<in> set (url s)" using contains_set [OF a(2)] by simp
    have b: "Imgur_try_body s = Imgur_extract_album s" using a by (simp add: Imgur_try_body_def)
    show ?thesis
      using extract_album_host_calls [OF sl c]
      by (cases "Imgur_extract_album s")
         (auto simp: Imgur_extract_content_def try_except_def b handler_host_calls
            split: sum.splits)
  qed
  then show ?thesis
    by (auto simp: Imgur_try_body_def Imgur_extract_content_def try_except_def)
qed

theorem Imgur_classification_order_witness:
  "Imgur_try_body (sample_imgur ''https://i.imgur.com/abc.jpg'' ''Post Title'' None) =
     Imgur_extract_direct_link (sample_imgur ''https://i.imgur.com/abc.jpg'' ''Post Title'' None)
   \<and> Imgur_try_body (sample_imgur ''https://imgur.com/gallery/abc'' ''Post Title'' None) =
     try_except Imgur_extract_album (\<lambda>e s1. (Inr (), s1))
       (sample_imgur ''https://imgur.com/gallery/abc'' ''Post Title'' None)
   \<and> Imgur_try_body (sample_imgur ''https://imgur.com/abc.jpg'' ''Post Title'' None) =
     Imgur_extract_direct_mislinked (sample_imgur ''https://imgur.com/abc.jpg'' ''Post Title'' None)
   \<and> Imgur_try_body (sample_imgur ''https://imgur.com/abc'' ''Post Title'' None) =
     Imgur_extract_single (sample_imgur ''https://imgur.com/abc'' ''Post Title'' None)
   \<and> Imgur_try_body
       (sample_imgur ''https://imgur.com/a/x.png'' ''Post Title''
          (Some (static_client (still_picture ''https://i.imgur.com/p.jpg'') []))) =
     Imgur_extract_album
       (sample_imgur ''https://imgur.com/a/x.png'' ''Post Title''
          (Some (static_client (still_picture ''https://i.imgur.com/p.jpg'') [])))
   \<and> host_calls
       (snd (Imgur_extract_content
               (sample_imgur ''https://imgur.com/a/x.png'' ''Post Title''
                  (Some (static_client (still_picture ''https://i.imgur.com/p.jpg'') []))))) =
     [GetAlbumImages ''x.png'']"
  using Imgur_classification_order
          [of "sample_imgur ''https://i.imgur.com/abc.jpg'' ''Post Title'' None"]
        Imgur_classification_order
          [of "sample_imgur ''https://imgur.com/gallery/abc'' ''Post Title'' None"]
        Imgur_classification_order
          [of "sample_imgur ''https://imgur.com/abc.jpg'' ''Post Title'' None"]
        Imgur_classification_order
          [of "sample_imgur ''https://imgur.com/abc'' ''Post Title'' None"]
        Imgur_classification_order
          [of "sample_imgur ''https://imgur.com/a/x.png'' ''Post Title''
                 (Some (static_client (still_picture ''https://i.imgur.com/p.jpg'') []))"]
  by (simp add: sample_imgur_def startswith_def endswith_any_def endswith_def lower_def
      lower_char_def media_suffixes_def after_last_def)

text \<open>
  The claim as it is written gives the album path to every url that contains \<open>/a/\<close> and
  ends with \<open>.png\<close>. The url below does both and contains \<open>i.imgur\<close>: it takes the
  direct-link path, which sends no request and appends the url itself.
\<close>

theorem Imgur_album_marker_on_direct_host:
  "contains ''/a/'' ''https://i.imgur.com/a/x.png''
   \<and> endswith ''https://i.imgur.com/a/x.png'' ''.png''
   \<and> Imgur_try_body
       (sample_imgur ''https://i.imgur.com/a/x.png'' ''Post Title''
          (Some (static_client (still_picture ''https://i.imgur.com/p.jpg'') []))) =
     Imgur_extract_direct_link
       (sample_imgur ''https://i.imgur.com/a/x.png'' ''Post Title''
          (Some (static_client (still_picture ''https://i.imgur.com/p.jpg'') [])))
   \<and> host_calls
       (snd (Imgur_extract_content
               (sample_imgur ''https://i.imgur.com/a/x.png'' ''Post Title''
                  (Some (static_client (still_picture ''https://i.imgur.com/p.jpg'') []))))) = []
   \<and> extracted_content
       (snd (Imgur_extract_content
               (sample_imgur ''https://i.imgur.com/a/x.png'' ''Post Title''
                  (Some (static_client (still_picture ''https://i.imgur.com/p.jpg'') []))))) =
     [ContentObj (Content (PStr ''https://i.imgur.com/a/x.png'') ''bob'' ''My title'' ''pics''
        ''My title'' EmptyStr ''.png'' ''/tmp/'' ''folder'' 0 False)]"
  by (simp add: Imgur_extract_content_def Imgur_try_body_def try_except_def startswith_def
      endswith_def Imgur_extract_direct_link_def cut_at_ext_def imgur_exts_def py_find_def
      slice_to_def unpack2_rsplit1 after_last_def before_last_def resolve_gif_def
      file_name_for_def append_extracted_def sample_imgur_def)


section \<open>The imgur extractor without credentials\<close>

lemma extracted_content_errors [simp]:
  "extracted_content (rate_limit_exceeded_error s) = extracted_content s"
  "extracted_content (no_credit_error s) = extracted_content s"
  "extracted_content (over_capacity_error s) = extracted_content s"
  "extracted_content (does_not_exist_error s) = extracted_content s"
  "extracted_content (failed_to_locate_error s) = extracted_content s"
  by (simp_all add: rate_limit_exceeded_error_def no_credit_error_def over_capacity_error_def
      does_not_exist_error_def failed_to_locate_error_def log_error_def log_warning_def)

lemma handler_extracted_content:
  "extracted_content (snd (Imgur_handler e s)) = extracted_content s"
  by (cases e) (auto simp: Imgur_handler_def Let_def split: option.splits)

lemma Imgur_no_client_no_item:
  assumes "client s = None" and "\<not> contains ''i.imgur'' (url s)"
    and "contains ''/a/'' (url s) \<or> contains ''/gallery/'' (url s) \<or>
         \<not> endswith_any (lower (url s)) media_suffixes"
  shows "extracted_content (snd (Imgur_extract_content s)) = extracted_content s"
proof -
  have "Imgur_try_body s = (r, s1) \<Longrightarrow> extracted_content s1 = extracted_content s" for r s1
    using assms
    by (auto simp: Imgur_try_body_def try_except_def split: if_splits sum.splits prod.splits
        dest: extract_album_no_client extract_single_no_client)
  then show ?thesis
    by (cases "Imgur_try_body s")
       (auto simp: Imgur_extract_content_def try_except_def handler_extracted_content
          split: sum.splits)
qed

text \<open>
  What does hold without credentials. When the settings hold \<open>None\<close> for the client id or
  for the client secret, \<open>ImgurExtractor.__init__\<close> logs a warning, appends one failure
  message and assigns no client. A call of \<open>extract_content\<close> on that instance sends no
  request to any host, whatever the url, and appends no item when the url takes the album,
  the gallery or the single-image path.
\<close>

lemma Imgur_without_credentials:
  assumes "imgur_client_id settings = None \<or> imgur_client_secret settings = None"
  shows
    "fst (Imgur_init settings mk u usr title sub date method name_by path display) = Inr ()
     \<and> client (snd (Imgur_init settings mk u usr title sub date method name_by path display)) = None
     \<and> failed_extract_messages
         (snd (Imgur_init settings mk u usr title sub date method name_by path display)) =
       [no_client_message
          (snd (Imgur_init settings mk u usr title sub date method name_by path display))]
     \<and> logged (snd (Imgur_init settings mk u usr title sub date method name_by path display)) =
       [LogWarning ''Imgur extract failed: No imgur client setup'']
     \<and> extracted_content
         (snd (Imgur_init settings mk u usr title sub date method name_by path display)) = []
     \<and> host_calls
         (snd (Imgur_extract_content
                 (snd (Imgur_init settings mk u usr title sub date method name_by path display)))) = []
     \<and> (\<not> contains ''i.imgur'' u \<and>
         (contains ''/a/'' u \<or> contains ''/gallery/'' u \<or>
          \<not> endswith_any (lower u) media_suffixes) \<longrightarrow>
           extracted_content
             (snd (Imgur_extract_content
                     (snd (Imgur_init settings mk u usr title sub date method name_by path display)))) = [])"
proof -
  let ?s = "snd (Imgur_init settings mk u usr title sub date method name_by path display)"
  have init: "fst (Imgur_init settings mk u usr title sub date method name_by path display) = Inr ()"
    "client ?s = None" "url ?s = u" "host_calls ?s = []" "extracted_content ?s = []"
    "logged ?s = [LogWarning ''Imgur extract failed: No imgur client setup'']"
    using assms by (auto simp: Imgur_init_def Let_def log_warning_def)
  have msg: "failed_extract_messages ?s = [no_client_message ?s]"
    using assms by (auto simp: Imgur_init_def Let_def log_warning_def no_client_message_def)
  have calls: "host_calls (snd (Imgur_extract_content ?s)) = []"
    using Imgur_no_client_no_calls [OF init(2)] init(4) by simp
  have items: "extracted_content (snd (Imgur_extract_content ?s)) = []"
    if "\<not> contains ''i.imgur'' u"
      and "contains ''/a/'' u \<or> contains ''/gallery/'' u \<or> \<not> endswith_any (lower u) media_suffixes"
    using Imgur_no_client_no_item [of ?s] that init(2,3,5) by simp
  show ?thesis
    using init msg calls items by blast
qed

lemma Imgur_without_credentials_sample:
  "failed_extract_messages
     (snd (Imgur_init \<lparr>imgur_client_id = None, imgur_client_secret = Some ''secret''\<rparr>
             (\<lambda>a b. Inl OtherError) ''https://imgur.com/a/abc'' ''bob'' ''My title'' ''pics'' 0
             ''folder'' ''Post Title'' ''/tmp/'' False)) =
     [no_client_message (sample_imgur ''https://imgur.com/a/abc'' ''Post Title'' None)]
   \<and> host_calls
       (snd (Imgur_extract_content
               (snd (Imgur_init \<lparr>imgur_client_id = None, imgur_client_secret = Some ''secret''\<rparr>
                       (\<lambda>a b. Inl OtherError) ''https://imgur.com/a/abc'' ''bob'' ''My title''
                       ''pics'' 0 ''folder'' ''Post Title'' ''/tmp/'' False)))) = []
   \<and> extracted_content
       (snd (Imgur_extract_content
               (snd (Imgur_init \<lparr>imgur_client_id = None, imgur_client_secret = Some ''secret''\<rparr>
                       (\<lambda>a b. Inl OtherError) ''https://imgur.com/a/abc'' ''bob'' ''My title''
                       ''pics'' 0 ''folder'' ''Post Title'' ''/tmp/'' False)))) = []"
proof -
  have h: "imgur_client_id \<lparr>imgur_client_id = None, imgur_client_secret = Some ''secret''\<rparr> = None
           \<or> imgur_client_secret \<lparr>imgur_client_id = None, imgur_client_secret = Some ''secret''\<rparr> = None"
    by simp
  have u: "\<not> contains ''i.imgur'' ''https://imgur.com/a/abc''"
    "contains ''/a/'' ''https://imgur.com/a/abc''"
    by (simp_all add: startswith_def)
  have m: "no_client_message
     (snd (Imgur_init \<lparr>imgur_client_id = None, imgur_client_secret = Some ''secret''\<rparr>
             (\<lambda>a b. Inl OtherError) ''https://imgur.com/a/abc'' ''bob'' ''My title'' ''pics'' 0
             ''folder'' ''Post Title'' ''/tmp/'' False)) =
     no_client_message (sample_imgur ''https://imgur.com/a/abc'' ''Post Title'' None)"
    by (simp add: no_client_message_def Imgur_init_def Let_def log_warning_def sample_imgur_def)
  show ?thesis
    using Imgur_without_credentials [OF h, of "\<lambda>a b. Inl OtherError" "''https://imgur.com/a/abc''"
        "''bob''" "''My title''" "''pics''" 0 "''folder''" "''Post Title''" "''/tmp/''" False] u m
    by (simp add: startswith_def)
qed

text \<open>
  C3 asks that an imgur extractor built without credentials extract nothing: a call of
  \<open>extract_content\<close> appends no content item, for every url. No method tests whether the
  client was assigned. Built without a client id, for the url of a jpg on the direct host,
  the constructor records its failure message and assigns no client, and
  \<open>extract_content\<close> still appends one content item, sending no request.
\<close>

theorem Imgur_without_credentials_still_extracts:
  "client
     (snd (Imgur_init \<lparr>imgur_client_id = None, imgur_client_secret = Some ''secret''\<rparr>
             (\<lambda>a b. Inl OtherError) ''https://i.imgur.com/abc.jpg'' ''bob'' ''My title'' ''pics'' 0
             ''folder'' ''Post Title'' ''/tmp/'' False)) = None
   \<and> extracted_content
       (snd (Imgur_extract_content
               (snd (Imgur_init \<lparr>imgur_client_id = None, imgur_client_secret = Some ''secret''\<rparr>
                       (\<lambda>a b. Inl OtherError) ''https://i.imgur.com/abc.jpg'' ''bob'' ''My title''
                       ''pics'' 0 ''folder'' ''Post Title'' ''/tmp/'' False)))) =
     [ContentObj (Content (PStr ''https://i.imgur.com/abc.jpg'') ''bob'' ''My title'' ''pics''
        ''My title'' EmptyStr ''.jpg'' ''/tmp/'' ''folder'' 0 False)]
   \<and> logged
       (snd (Imgur_init \<lparr>imgur_client_id = None, imgur_client_secret = Some ''secret''\<rparr>
               (\<lambda>a b. Inl OtherError) ''https://i.imgur.com/abc.jpg'' ''bob'' ''My title''
               ''pics'' 0 ''folder'' ''Post Title'' ''/tmp/'' False)) =
     [LogWarning ''Imgur extract failed: No imgur client setup'']
   \<and> length
       (failed_extract_messages
          (snd (Imgur_init \<lparr>imgur_client_id = None, imgur_client_secret = Some ''secret''\<rparr>
                  (\<lambda>a b. Inl OtherError) ''https://i.imgur.com/abc.jpg'' ''bob'' ''My title''
                  ''pics'' 0 ''folder'' ''Post Title'' ''/tmp/'' False))) = 1
   \<and> host_calls
       (snd (Imgur_extract_content
               (snd (Imgur_init \<lparr>imgur_client_id = None, imgur_client_secret = Some ''secret''\<rparr>
                       (\<lambda>a b. Inl OtherError) ''https://i.imgur.com/abc.jpg'' ''bob'' ''My title''
                       ''pics'' 0 ''folder'' ''Post Title'' ''/tmp/'' False)))) = []"
  by (simp add: Imgur_init_def Let_def log_warning_def Imgur_extract_content_def
      Imgur_try_body_def try_except_def startswith_def endswith_def
      Imgur_extract_direct_link_def cut_at_ext_def imgur_exts_def py_find_def slice_to_def
      unpack2_rsplit1 after_last_def before_last_def resolve_gif_def file_name_for_def
      append_extracted_def)


section \<open>File names under the policy that names by post title\<close>

lemma contents_of_append: "contents_of (xs @ ys) = contents_of xs @ contents_of ys"
  by (induction xs rule: contents_of.induct) simp_all

lemma titled_start: "titled (length xs) t xs"
  by (simp add: titled_def)

lemma titled_Str: "titled n t xs \<Longrightarrow> titled n t (xs @ [Str m])"
  by (simp add: titled_def contents_of_append)

lemma titled_Content:
  "titled n t xs \<Longrightarrow> c_file_name c = t \<Longrightarrow> titled n t (xs @ [ContentObj c])"
  by (simp add: titled_def contents_of_append)

lemma titled_appended:
  "titled (length (extracted_content s)) t (extracted_content s1) \<Longrightarrow>
     list_all (\<lambda>c. c_file_name c = t) (contents_of (appended s s1))"
  by (simp add: titled_def appended_def)

lemma c_file_name_Content: "c_file_name (Content u a b c f n e p m d x) = f"
  by (simp add: Content_def)

lemma titled_append_extracted:
  "titled n t (extracted_content s) \<Longrightarrow> c_file_name c = t \<Longrightarrow>
     titled n t (extracted_content (append_extracted (ContentObj c) s))"
  by (simp add: append_extracted_def titled_Content)

lemma get_json_titled:
  "get_json env u s = (r, s1) \<Longrightarrow>
     post_title s1 = post_title s \<and> name_downloads_by s1 = name_downloads_by s \<and>
     (titled n t (extracted_content s) \<longrightarrow> titled n t (extracted_content s1))"
  by (auto simp: get_json_def Let_def sent_def append_extracted_def log_error_def
      split: sum.splits bool.splits intro: titled_Str)

lemma get_text_titled:
  "get_text env u s = (r, s1) \<Longrightarrow>
     post_title s1 = post_title s \<and> name_downloads_by s1 = name_downloads_by s \<and>
     (titled n t (extracted_content s) \<longrightarrow> titled n t (extracted_content s1))"
  by (auto simp: get_text_def Let_def sent_def append_extracted_def log_error_def
      split: sum.splits bool.splits intro: titled_Str)

lemma locate_handler_titled:
  "titled n t (extracted_content s) \<Longrightarrow> titled n t (extracted_content (snd (locate_handler e s)))"
  by (simp add: locate_handler_def append_extracted_def log_error_def titled_Str)

lemma try_except_titled:
  assumes "\<And>r s1. m s = (r, s1) \<Longrightarrow> titled n t (extracted_content s1)"
    and "\<And>e s1. titled n t (extracted_content s1) \<Longrightarrow> titled n t (extracted_content (snd (h e s1)))"
  shows "titled n t (extracted_content (snd (try_except m h s)))"
  using assms by (cases "m s") (auto simp: try_except_def split: sum.splits)

lemma Gfycat_direct_titled:
  assumes "name_downloads_by s = ''Post Title''" and "post_title s = t"
    and "titled n t (extracted_content s)"
  shows "titled n t (extracted_content (snd (Gfycat_extract_direct_link s)))"
  using assms
  by (simp add: Gfycat_direct_result file_name_for_def titled_append_extracted
      c_file_name_Content)

lemma Gfycat_single_titled:
  assumes "name_downloads_by s = ''Post Title''" and "post_title s = t"
    and "titled n t (extracted_content s)"
  shows "titled n t (extracted_content (snd (Gfycat_extract_single env s)))"
proof (cases "CHR ''/'' \<in> set (url s)")
  case False
  with assms show ?thesis by (simp add: Gfycat_extract_single_def unpack2_rsplit1)
next
  case True
  obtain r s1 where g: "get_json env (api_caller @ after_last (url s) CHR ''/'') s = (r, s1)"
    by (cases "get_json env (api_caller @ after_last (url s) CHR ''/'') s") auto
  from get_json_titled [OF g, of n t] assms
  have s1: "post_title s1 = t" "name_downloads_by s1 = ''Post Title''"
    "titled n t (extracted_content s1)" by simp_all
  show ?thesis
    using True g s1
    by (simp add: Gfycat_extract_single_def unpack2_rsplit1 file_name_for_def
        titled_append_extracted c_file_name_Content split: sum.splits)
qed

lemma Gfycat_titled:
  assumes "name_downloads_by s = ''Post Title''" and "post_title s = t"
    and "titled n t (extracted_content s)"
  shows "titled n t (extracted_content (snd (Gfycat_extract_content env s)))"
  unfolding Gfycat_extract_content_def
proof (rule try_except_titled)
  fix r s1
  assume "(if endswith_any (lower (url s)) [''webm'', ''gif'', ''gifv'']
           then Gfycat_extract_direct_link s else Gfycat_extract_single env s) = (r, s1)"
  then have "s1 = snd (Gfycat_extract_direct_link s) \<or> s1 = snd (Gfycat_extract_single env s)"
    by (auto split: if_splits)
  then show "titled n t (extracted_content s1)"
    using Gfycat_direct_titled [OF assms] Gfycat_single_titled [OF assms] by auto
qed (rule locate_handler_titled)

lemma Vidble_single_loop_titled:
  assumes "name_downloads_by s = ''Post Title''" and "post_title s = t"
    and "titled n t (extracted_content s)"
  shows "titled n t (extracted_content (snd (Vidble_single_loop v imgs s)))"
  using assms
proof (induction imgs arbitrary: s)
  case Nil
  then show ?case by simp
next
  case (Cons i imgs)
  show ?case
    using Cons.prems
    by (simp add: file_name_for_def titled_append_extracted c_file_name_Content Cons.IH
        append_extracted_def titled_Content split: sum.splits option.splits prod.splits)
qed

lemma Vidble_album_loop_titled:
  assumes "name_downloads_by s = ''Post Title''" and "post_title s = t"
    and "titled n t (extracted_content s)"
  shows "titled n t (extracted_content (snd (Vidble_album_loop v k imgs s)))"
  using assms
proof (induction imgs arbitrary: s k)
  case Nil
  then show ?case by simp
next
  case (Cons i imgs)
  show ?case
    using Cons.prems
    by (simp add: file_name_for_def titled_append_extracted c_file_name_Content Cons.IH
        append_extracted_def titled_Content split: sum.splits option.splits prod.splits)
qed

lemma Vidble_single_titled:
  assumes "name_downloads_by s = ''Post Title''" and "post_title s = t"
    and "titled n t (extracted_content s)"
  shows "titled n t (extracted_content (snd (Vidble_extract_single env s)))"
proof (cases "CHR ''/'' \<in> set (url s)")
  case False
  with assms show ?thesis by (simp add: Vidble_extract_single_def unpack2_rsplit1)
next
  case True
  obtain r s1 where g: "get_text env (url s) s = (r, s1)"
    by (cases "get_text env (url s) s") auto
  from get_text_titled [OF g, of n t] assms
  have s1: "post_title s1 = t" "name_downloads_by s1 = ''Post Title''"
    "titled n t (extracted_content s1)" by simp_all
  show ?thesis
    using True g s1
    by (simp add: Vidble_extract_single_def unpack2_rsplit1 Let_def Vidble_single_loop_titled
        split: sum.splits)
qed

lemma Vidble_album_titled:
  assumes "name_downloads_by s = ''Post Title''" and "post_title s = t"
    and "titled n t (extracted_content s)"
  shows "titled n t (extracted_content (snd (Vidble_extract_album env s)))"
proof (cases "CHR ''/'' \<in> set (url s)")
  case False
  with assms show ?thesis by (simp add: Vidble_extract_album_def unpack2_rsplit1)
next
  case True
  obtain r s1 where g: "get_text env (url s) s = (r, s1)"
    by (cases "get_text env (url s) s") auto
  from get_text_titled [OF g, of n t] assms
  have s1: "post_title s1 = t" "name_downloads_by s1 = ''Post Title''"
    "titled n t (extracted_content s1)" by simp_all
  show ?thesis
    using True g s1
    by (simp add: Vidble_extract_album_def unpack2_rsplit1 Vidble_album_loop_titled
        split: sum.splits)
qed

lemma Vidble_direct_titled:
  assumes "name_downloads_by s = ''Post Title''" and "post_title s = t"
    and "titled n t (extracted_content s)"
  shows "titled n t (extracted_content (snd (Vidble_extract_direct_link s)))"
  using assms
  by (simp add: Vidble_extract_direct_link_def unpack2_rsplit1 file_name_for_def
      titled_append_extracted c_file_name_Content)

lemma Vidble_titled:
  assumes "name_downloads_by s = ''Post Title''" and "post_title s = t"
    and "titled n t (extracted_content s)"
  shows "titled n t (extracted_content (snd (Vidble_extract_content env s)))"
  unfolding Vidble_extract_content_def
proof (rule try_except_titled)
  fix r s1
  assume "(if contains ''/show/'' (url s) \<or> contains ''/explore/'' (url s)
           then Vidble_extract_single env s
           else if contains ''/album/'' (url s) then Vidble_extract_album env s
           else if endswith_any (lower (url s))
                     [''.jpg'', ''jpeg'', ''.png'', ''.gif'', ''.gifv'', ''.mp4'', ''webm'']
           then Vidble_extract_direct_link s else Vidble_extract_album env s) = (r, s1)"
  then have "s1 = snd (Vidble_extract_single env s) \<or> s1 = snd (Vidble_extract_album env s) \<or>
             s1 = snd (Vidble_extract_direct_link s)"
    by (auto split: if_splits)
  then show "titled n t (extracted_content s1)"
    using Vidble_single_titled [OF assms] Vidble_album_titled [OF assms]
      Vidble_direct_titled [OF assms] by auto
qed (rule locate_handler_titled)

lemma RedditUploads_titled:
  assumes "post_title s = t" and "titled n t (extracted_content s)"
  shows "titled n t (extracted_content (snd (RedditUploads_extract_content s)))"
  using assms by (simp add: RedditUploads_result titled_append_extracted c_file_name_Content)

lemma Direct_titled:
  assumes "name_downloads_by s = ''Post Title''" and "post_title s = t"
    and "titled n t (extracted_content s)"
  shows "titled n t (extracted_content (snd (Direct_extract_content s)))"
  using assms
  by (simp add: Direct_result file_name_for_def titled_append_extracted c_file_name_Content)

lemma resolve_gif_titled:
  "resolve_gif u i x s = (r, s1) \<Longrightarrow>
     post_title s1 = post_title s \<and> name_downloads_by s1 = name_downloads_by s \<and>
     extracted_content s1 = extracted_content s"
  by (auto simp: resolve_gif_def client_get_image_def sent_def
      split: option.splits sum.splits prod.splits if_splits)

lemma Imgur_direct_titled:
  assumes "name_downloads_by s = ''Post Title''" and "post_title s = t"
    and "titled n t (extracted_content s)"
  shows "titled n t (extracted_content (snd (Imgur_extract_direct_link s)))"
  using assms
  by (auto simp: Imgur_extract_direct_link_def try_except_def name_error_handler_def
      log_error_def unpack2_rsplit1 file_name_for_def titled_append_extracted
      c_file_name_Content
      split: option.splits sum.splits prod.splits if_splits dest!: resolve_gif_titled)

lemma Imgur_mislinked_titled:
  assumes "name_downloads_by s = ''Post Title''" and "post_title s = t"
    and "titled n t (extracted_content s)"
  shows "titled n t (extracted_content (snd (Imgur_extract_direct_mislinked s)))"
  using assms
  by (auto simp: Imgur_extract_direct_mislinked_def try_except_def name_error_handler_def
      log_error_def unpack2_rsplit1 file_name_for_def titled_append_extracted
      c_file_name_Content Let_def
      split: option.splits sum.splits prod.splits if_splits dest!: resolve_gif_titled)

lemma Imgur_single_titled:
  assumes "name_downloads_by s = ''Post Title''" and "post_title s = t"
    and "titled n t (extracted_content s)"
  shows "titled n t (extracted_content (snd (Imgur_extract_single s)))"
  using assms
  by (auto simp: Imgur_extract_single_def unpack2_rsplit1 client_get_image_def sent_def
      file_name_for_def append_extracted_def titled_Content c_file_name_Content
      split: option.splits sum.splits prod.splits)

lemma Imgur_album_loop_titled:
  assumes "name_downloads_by s = ''Post Title''" and "post_title s = t"
    and "titled n (t @ '' '') (extracted_content s)"
  shows "titled n (t @ '' '') (extracted_content (snd (Imgur_album_loop a k pics s)))"
  using assms
proof (induction pics arbitrary: s k)
  case Nil
  then show ?case by simp
next
  case (Cons p pics)
  show ?case
    using Cons.prems
    by (simp add: file_name_for_def c_file_name_Content Cons.IH append_extracted_def
        titled_Content split: sum.splits prod.splits)
qed

lemma Imgur_album_titled:
  assumes "name_downloads_by s = ''Post Title''" and "post_title s = t"
    and "titled n (t @ '' '') (extracted_content s)"
  shows "titled n (t @ '' '') (extracted_content (snd (Imgur_extract_album s)))"
  using assms
  by (simp add: Imgur_extract_album_def unpack2_rsplit1 client_get_album_images_def sent_def
      Imgur_album_loop_titled split: option.splits sum.splits)

lemma Imgur_content_titled:
  assumes p: "name_downloads_by s = ''Post Title''" "post_title s = t"
  shows "contains ''i.imgur'' (url s) \<or>
           (\<not> contains ''/a/'' (url s) \<and> \<not> contains ''/gallery/'' (url s)) \<Longrightarrow>
         titled n t (extracted_content s) \<Longrightarrow>
         titled n t (extracted_content (snd (Imgur_extract_content s)))"
    and "\<not> contains ''i.imgur'' (url s) \<Longrightarrow>
         contains ''/a/'' (url s) \<or> contains ''/gallery/'' (url s) \<Longrightarrow>
         titled n (t @ '' '') (extracted_content s) \<Longrightarrow>
         titled n (t @ '' '') (extracted_content (snd (Imgur_extract_content s)))"
proof -
  have h: "titled n x (extracted_content (snd (Imgur_try_body s))) \<Longrightarrow>
           titled n x (extracted_content (snd (Imgur_extract_content s)))" for x
    by (cases "Imgur_try_body s")
       (auto simp: Imgur_extract_content_def try_except_def handler_extracted_content
          split: sum.splits)
  {
    assume a: "contains ''i.imgur'' (url s) \<or>
           (\<not> contains ''/a/'' (url s) \<and> \<not> contains ''/gallery/'' (url s))"
      and b: "titled n t (extracted_content s)"
    have "titled n t (extracted_content (snd (Imgur_try_body s)))"
      using a Imgur_direct_titled [OF p b] Imgur_mislinked_titled [OF p b]
        Imgur_single_titled [OF p b]
      by (auto simp: Imgur_try_body_def)
    then show "titled n t (extracted_content (snd (Imgur_extract_content s)))" by (rule h)
  }
  {
    assume a: "\<not> contains ''i.imgur'' (url s)"
      "contains ''/a/'' (url s) \<or> contains ''/gallery/'' (url s)"
      and b: "titled n (t @ '' '') (extracted_content s)"
    have "titled n (t @ '' '') (extracted_content (snd (Imgur_try_body s)))"
      using a Imgur_album_titled [OF p b]
      by (cases "Imgur_extract_album s")
         (auto simp: Imgur_try_body_def try_except_def split: sum.splits)
    then show "titled n (t @ '' '') (extracted_content (snd (Imgur_extract_content s)))"
      by (rule h)
  }
qed

text \<open>
  C7, as the code has it. Under the policy \<open>'Post Title'\<close> every \<open>Content\<close> object that a
  call of \<open>extract_content\<close> appends has the post title as its file name, for the Gfycat,
  Vidble, reddit uploads and direct extractors and for the direct-link, mislinked and
  single-image paths of the imgur extractor. On the album path of the imgur extractor
  (taken for \<open>/a/\<close> and for \<open>/gallery/\<close>) the file name is the post title followed by one
  space.
\<close>

theorem title_policy_file_names:
  assumes "name_downloads_by s = ''Post Title''" and "name_downloads_by si = ''Post Title''"
  shows
    "list_all (\<lambda>c. c_file_name c = post_title s)
       (contents_of (appended s (snd (Gfycat_extract_content env s))))
     \<and> list_all (\<lambda>c. c_file_name c = post_title s)
         (contents_of (appended s (snd (Vidble_extract_content env s))))
     \<and> list_all (\<lambda>c. c_file_name c = post_title s)
         (contents_of (appended s (snd (RedditUploads_extract_content s))))
     \<and> list_all (\<lambda>c. c_file_name c = post_title s)
         (contents_of (appended s (snd (Direct_extract_content s))))
     \<and> (contains ''i.imgur'' (url si) \<or>
         (\<not> contains ''/a/'' (url si) \<and> \<not> contains ''/gallery/'' (url si)) \<longrightarrow>
           list_all (\<lambda>c. c_file_name c = post_title si)
             (contents_of (appended si (snd (Imgur_extract_content si)))))
     \<and> (\<not> contains ''i.imgur'' (url si) \<and>
         (contains ''/a/'' (url si) \<or> contains ''/gallery/'' (url si)) \<longrightarrow>
           list_all (\<lambda>c. c_file_name c = post_title si @ '' '')
             (contents_of (appended si (snd (Imgur_extract_content si)))))"
proof -
  note st = titled_start [of "extracted_content s" "post_title s"]
  have "list_all (\<lambda>c. c_file_name c = post_title s)
          (contents_of (appended s (snd (Gfycat_extract_content env s))))"
    by (rule titled_appended) (rule Gfycat_titled [OF assms(1) refl st])
  moreover have "list_all (\<lambda>c. c_file_name c = post_title s)
          (contents_of (appended s (snd (Vidble_extract_content env s))))"
    by (rule titled_appended) (rule Vidble_titled [OF assms(1) refl st])
  moreover have "list_all (\<lambda>c. c_file_name c = post_title s)
          (contents_of (appended s (snd (RedditUploads_extract_content s))))"
    by (rule titled_appended) (rule RedditUploads_titled [OF refl st])
  moreover have "list_all (\<lambda>c. c_file_name c = post_title s)
          (contents_of (appended s (snd (Direct_extract_content s))))"
    by (rule titled_appended) (rule Direct_titled [OF assms(1) refl st])
  moreover have "list_all (\<lambda>c. c_file_name c = post_title si)
             (contents_of (appended si (snd (Imgur_extract_content si))))"
    if "contains ''i.imgur'' (url si) \<or>
         (\<not> contains ''/a/'' (url si) \<and> \<not> contains ''/gallery/'' (url si))"
    by (rule titled_appended)
       (rule Imgur_content_titled(1) [OF assms(2) refl that titled_start])
  moreover have "list_all (\<lambda>c. c_file_name c = post_title si @ '' '')
             (contents_of (appended si (snd (Imgur_extract_content si))))"
    if "\<not> contains ''i.imgur'' (url si)"
      and "contains ''/a/'' (url si) \<or> contains ''/gallery/'' (url si)"
    by (rule titled_appended)
       (rule Imgur_content_titled(2) [OF assms(2) refl that titled_start])
  ultimately show ?thesis by blast
qed

theorem title_policy_file_names_witness:
  "list_all (\<lambda>c. c_file_name c = ''My title'')
     (contents_of
        (appended (sample_post ''https://gfycat.com/abc123.gif'' ''Post Title'')
           (snd (Gfycat_extract_content host_404
                   (sample_post ''https://gfycat.com/abc123.gif'' ''Post Title'')))))
   \<and> list_all (\<lambda>c. c_file_name c = ''My title'')
       (contents_of
          (appended (sample_post ''https://gfycat.com/abc123.gif'' ''Post Title'')
             (snd (Direct_extract_content
                     (sample_post ''https://gfycat.com/abc123.gif'' ''Post Title'')))))
   \<and> list_all (\<lambda>c. c_file_name c = ''My title '')
       (contents_of
          (appended
             (sample_imgur ''https://imgur.com/a/xyz'' ''Post Title''
                (Some (static_client (still_picture ''https://i.imgur.com/p0.jpg'')
                   [still_picture ''https://i.imgur.com/p1.jpg'',
                    animated_picture ''https://i.imgur.com/p2.gif'' ''https://i.imgur.com/p2.mp4''])))
             (snd (Imgur_extract_content
                     (sample_imgur ''https://imgur.com/a/xyz'' ''Post Title''
                        (Some (static_client (still_picture ''https://i.imgur.com/p0.jpg'')
                           [still_picture ''https://i.imgur.com/p1.jpg'',
                            animated_picture ''https://i.imgur.com/p2.gif''
                              ''https://i.imgur.com/p2.mp4''])))))))"
  using title_policy_file_names
          [of "sample_post ''https://gfycat.com/abc123.gif'' ''Post Title''"
              "sample_imgur ''https://imgur.com/a/xyz'' ''Post Title''
                (Some (static_client (still_picture ''https://i.imgur.com/p0.jpg'')
                   [still_picture ''https://i.imgur.com/p1.jpg'',
                    animated_picture ''https://i.imgur.com/p2.gif'' ''https://i.imgur.com/p2.mp4'']))"
              host_404]
  by (simp add: sample_post_def sample_imgur_def Extractor_init_def startswith_def)

text \<open>
  The claim as it is written gives every item the post title, unaltered, as its file name.
  The items of an imgur album get the title and a space.
\<close>

theorem Imgur_album_file_name_has_space:
  "post_title
     (sample_imgur ''https://imgur.com/a/xyz'' ''Post Title''
        (Some (static_client (still_picture ''https://i.imgur.com/p0.jpg'')
           [still_picture ''https://i.imgur.com/p1.jpg'',
            animated_picture ''https://i.imgur.com/p2.gif'' ''https://i.imgur.com/p2.mp4'']))) =
     ''My title''
   \<and> map c_file_name
       (contents_of
          (extracted_content
             (snd (Imgur_extract_content
                     (sample_imgur ''https://imgur.com/a/xyz'' ''Post Title''
                        (Some (static_client (still_picture ''https://i.imgur.com/p0.jpg'')
                           [still_picture ''https://i.imgur.com/p1.jpg'',
                            animated_picture ''https://i.imgur.com/p2.gif''
                              ''https://i.imgur.com/p2.mp4'']))))))) =
     [''My title '', ''My title '']"
  by (simp add: Imgur_extract_content_def Imgur_try_body_def try_except_def startswith_def
      Imgur_extract_album_def unpack2_rsplit1 after_last_def before_last_def
      client_get_album_images_def sent_def static_client_def still_picture_def
      animated_picture_def resolve_mp4_def file_name_for_def append_extracted_def
      c_file_name_Content sample_imgur_def)


section \<open>The items of an album\<close>

declare str_nat.simps [simp del]

lemma digit_char_inj: "a < 10 \<Longrightarrow> b < 10 \<Longrightarrow> digit_char a = digit_char b \<Longrightarrow> a = b"
proof -
  assume a: "a < 10" and b: "b < 10" and e: "digit_char a = digit_char b"
  have d: "distinct ''0123456789''" by simp
  have "a < length ''0123456789''" "b < length ''0123456789''" using a b by simp_all
  with d e show "a = b" unfolding digit_char_def by (simp only: nth_eq_iff_index_eq)
qed

lemma str_nat_not_Nil: "str_nat n \<noteq> []"
  by (subst str_nat.simps) simp

lemma str_nat_inj: "str_nat m = str_nat n \<Longrightarrow> m = n"
proof (induction m arbitrary: n rule: less_induct)
  case (less m)
  show ?case
  proof (cases "m < 10")
    case m: True
    show ?thesis
    proof (cases "n < 10")
      case True
      with m less.prems show ?thesis
        by (simp add: str_nat.simps [of m] str_nat.simps [of n] digit_char_inj)
    next
      case False
      with m less.prems show ?thesis
        using str_nat_not_Nil [of "n div 10"]
        by (simp add: str_nat.simps [of m] str_nat.simps [of n])
    qed
  next
    case m: False
    show ?thesis
    proof (cases "n < 10")
      case True
      with m less.prems show ?thesis
        using str_nat_not_Nil [of "m div 10"]
        by (simp add: str_nat.simps [of m] str_nat.simps [of n])
    next
      case False
      with m less.prems
      have e: "str_nat (m div 10) = str_nat (n div 10)"
        and d: "digit_char (m mod 10) = digit_char (n mod 10)"
        by (simp_all add: str_nat.simps [of m] str_nat.simps [of n])
      from m have "m div 10 < m" by simp
      from less.IH [OF this e] have q: "m div 10 = n div 10" .
      have r: "m mod 10 = n mod 10" using d by (intro digit_char_inj) simp_all
      show ?thesis using q r by (metis div_mult_mod_eq)
    qed
  qed
qed

lemma map_zip_fst: "length ps = length js \<Longrightarrow> map (\<lambda>(p, j). f p) (zip ps js) = map f ps"
  by (induction ps js rule: list_induct2) simp_all

lemma map_zip_snd: "length ps = length js \<Longrightarrow> map (\<lambda>(p, j). h j) (zip ps js) = map h js"
  by (induction ps js rule: list_induct2) simp_all

lemma contents_of_map_ContentObj: "contents_of (map ContentObj cs) = cs"
  by (induction cs) simp_all

lemma upt_step: "[k..<Suc (k + n)] = k # [Suc k..<Suc (k + n)]"
  by (simp add: upt_conv_Cons)

lemma numbered_names_distinct: "distinct js \<Longrightarrow> distinct (map (\<lambda>j. f @ str_nat j) js)"
  by (auto simp: distinct_map inj_on_def dest: str_nat_inj)

lemma contents_of_map_zip:
  "contents_of (map (\<lambda>(p, j). ContentObj (g p j)) zs) = map (\<lambda>(p, j). g p j) zs"
  by (induction zs) auto

lemma Content_fields:
  "c_url (Content u a b c f n e p m d x) = u"
  "c_count (Content u a b c f n e p m d x) = n"
  "Content_file_name (Content u a b c f (Num j) e p m d x) = f @ str_nat j"
  by (simp_all add: Content_def Content_file_name_def)

lemma resolve_mp4_ok:
  "picture_ok p \<Longrightarrow>
     resolve_mp4 p (after_last (link p) CHR ''.'') = Inr (picture_url p, picture_ext p)"
  by (auto simp: picture_ok_def resolve_mp4_def picture_url_def picture_ext_def)

lemma Imgur_album_loop_ok:
  "list_all picture_ok pics \<Longrightarrow>
     Imgur_album_loop a k pics s =
       (Inr (),
        s\<lparr>extracted_content :=
            extracted_content s @
              map (\<lambda>(p, j).
                     ContentObj (Content (PStr (picture_url p)) (user s) (post_title s)
                       (subreddit s) (file_name_for s a @ '' '') (Num j) (''.'' @ picture_ext p)
                       (save_path s) (subreddit_save_method s) (creation_date s)
                       (content_display_only s)))
                (zip pics [k..<k + length pics])\<rparr>)"
proof (induction pics arbitrary: k s)
  case Nil
  then show ?case by simp
next
  case (Cons p pics)
  from Cons.prems have ok: "picture_ok p" and rest: "list_all picture_ok pics" by simp_all
  from ok have dot: "CHR ''.'' \<in> set (link p)" by (simp add: picture_ok_def)
  show ?case
    using dot resolve_mp4_ok [OF ok]
    by (simp add: unpack2_rsplit1 Cons.IH [OF rest] upt_step append_extracted_def
        file_name_for_def del: upt_Suc)
qed

lemma Vidble_album_loop_ok:
  "list_all img_ok imgs \<Longrightarrow>
     Vidble_album_loop v k imgs s =
       (Inr (),
        s\<lparr>extracted_content :=
            extracted_content s @
              map (\<lambda>(l, j).
                     ContentObj (Content (PStr (vidble_base @ l)) (user s) (post_title s)
                       (subreddit s) (file_name_for s v) (Num j)
                       (''.'' @ after_last l CHR ''.'')
                       (save_path s) (subreddit_save_method s) (creation_date s)
                       (content_display_only s)))
                (zip (img2_links imgs) [k..<k + length (img2_links imgs)])\<rparr>)"
proof (induction imgs arbitrary: k s)
  case Nil
  then show ?case by simp
next
  case (Cons i imgs)
  from Cons.prems have ok: "img_ok i" and rest: "list_all img_ok imgs" by simp_all
  show ?case
  proof (cases "img2_link i")
    case (Inl e)
    with ok show ?thesis by (simp add: img_ok_def)
  next
    case (Inr lo)
    show ?thesis
    proof (cases lo)
      case None
      with Inr show ?thesis by (simp add: Cons.IH [OF rest])
    next
      case (Some l)
      with Inr ok have dot: "CHR ''.'' \<in> set l" by (simp add: img_ok_def)
      show ?thesis
        using Inr Some dot
        by (simp add: unpack2_rsplit1 Cons.IH [OF rest] upt_step append_extracted_def
            file_name_for_def del: upt_Suc)
    qed
  qed
qed


lemma numbered_items:
  assumes "length ps = length js" and "distinct js"
  shows "map c_url (contents_of (map (\<lambda>(p, j). ContentObj (Content (PStr (w p)) a b c f (Num j) (e p) q m d x)) (zip ps js))) =
           map (\<lambda>p. PStr (w p)) ps"
    and "map c_count (contents_of (map (\<lambda>(p, j). ContentObj (Content (PStr (w p)) a b c f (Num j) (e p) q m d x)) (zip ps js))) =
           map Num js"
    and "distinct (map Content_file_name (contents_of (map (\<lambda>(p, j). ContentObj (Content (PStr (w p)) a b c f (Num j) (e p) q m d x)) (zip ps js))))"
proof -
  have 1: "map c_url (map (\<lambda>(p, j). Content (PStr (w p)) a b c f (Num j) (e p) q m d x) (zip ps js)) =
        map (\<lambda>(p, j). PStr (w p)) (zip ps js)"
    by (simp add: case_prod_beta Content_fields)
  have 2: "map c_count (map (\<lambda>(p, j). Content (PStr (w p)) a b c f (Num j) (e p) q m d x) (zip ps js)) =
        map (\<lambda>(p, j). Num j) (zip ps js)"
    by (simp add: case_prod_beta Content_fields)
  have 3: "map Content_file_name (map (\<lambda>(p, j). Content (PStr (w p)) a b c f (Num j) (e p) q m d x) (zip ps js)) =
        map (\<lambda>(p, j). f @ str_nat j) (zip ps js)"
    by (simp add: case_prod_beta Content_fields)
  show "map c_url (contents_of (map (\<lambda>(p, j). ContentObj (Content (PStr (w p)) a b c f (Num j) (e p) q m d x)) (zip ps js))) =
           map (\<lambda>p. PStr (w p)) ps"
    unfolding contents_of_map_zip 1 using assms(1) by (rule map_zip_fst)
  show "map c_count (contents_of (map (\<lambda>(p, j). ContentObj (Content (PStr (w p)) a b c f (Num j) (e p) q m d x)) (zip ps js))) =
           map Num js"
    unfolding contents_of_map_zip 2 using assms(1) by (rule map_zip_snd)
  show "distinct (map Content_file_name (contents_of (map (\<lambda>(p, j). ContentObj (Content (PStr (w p)) a b c f (Num j) (e p) q m d x)) (zip ps js))))"
    unfolding contents_of_map_zip 3 map_zip_snd [OF assms(1)]
    using assms(2) by (rule numbered_names_distinct)
qed

lemma Imgur_album_ok:
  assumes "CHR ''/'' \<in> set (url s)" and "client s = Some c"
    and "get_album_images c (after_last (url s) CHR ''/'') = Inr pics"
    and "list_all picture_ok pics"
  shows "fst (Imgur_extract_album s) = Inr ()"
    and "extracted_content (snd (Imgur_extract_album s)) =
       extracted_content s @
         map (\<lambda>(p, j).
                ContentObj (Content (PStr (picture_url p)) (user s) (post_title s)
                  (subreddit s) (file_name_for s (after_last (url s) CHR ''/'') @ '' '') (Num j)
                  (''.'' @ picture_ext p) (save_path s) (subreddit_save_method s)
                  (creation_date s) (content_display_only s)))
           (zip pics [1..<1 + length pics])"
  using assms
  by (simp_all add: Imgur_extract_album_def unpack2_rsplit1 client_get_album_images_def
      Imgur_album_loop_ok sent_def file_name_for_def del: upt_Suc)

lemma Vidble_album_ok:
  assumes "CHR ''/'' \<in> set (url s)" and "requests_get env (url s) = Inr r"
    and "good_response ''text'' r = Inr True"
    and "soup_find_all_img env (Some (body_text r)) = Inr imgs"
    and "list_all img_ok imgs"
  shows "fst (Vidble_extract_album env s) = Inr ()"
    and "extracted_content (snd (Vidble_extract_album env s)) =
       extracted_content s @
         map (\<lambda>(l, j).
                ContentObj (Content (PStr (vidble_base @ l)) (user s) (post_title s)
                  (subreddit s) (file_name_for s (after_last (url s) CHR ''/'')) (Num j)
                  (''.'' @ after_last l CHR ''.'') (save_path s) (subreddit_save_method s)
                  (creation_date s) (content_display_only s)))
           (zip (img2_links imgs) [1..<1 + length (img2_links imgs)])"
  using assms
  by (simp_all add: Vidble_extract_album_def unpack2_rsplit1 get_text_def Let_def
      Vidble_album_loop_ok sent_def file_name_for_def del: upt_Suc)

text \<open>
  C6, as the code has it. On the album path of the imgur extractor, when the client returns
  \<open>N\<close> images of which each has a dot in its link and, if it is an animated gif, the
  attribute \<open>mp4\<close>, and on the album path of the Vidble extractor, when the page holds \<open>N\<close>
  image links of which each has a dot: the call returns, it appends \<open>N\<close> items and
  nothing else, in the order of the images, with the counts 1 to \<open>N\<close>, and their computed
  file names differ from one another.
\<close>

theorem album_items_are_numbered:
  "(CHR ''/'' \<in> set (url s) \<and> client s = Some c \<and>
    get_album_images c (after_last (url s) CHR ''/'') = Inr pics \<and> list_all picture_ok pics \<longrightarrow>
      fst (Imgur_extract_album s) = Inr () \<and>
      extracted_content (snd (Imgur_extract_album s)) =
        extracted_content s @
          map ContentObj (contents_of (appended s (snd (Imgur_extract_album s)))) \<and>
      map c_url (contents_of (appended s (snd (Imgur_extract_album s)))) =
        map (\<lambda>p. PStr (picture_url p)) pics \<and>
      map c_count (contents_of (appended s (snd (Imgur_extract_album s)))) =
        map Num [1..<1 + length pics] \<and>
      distinct (map Content_file_name (contents_of (appended s (snd (Imgur_extract_album s))))))
   \<and> (CHR ''/'' \<in> set (url sv) \<and> requests_get env (url sv) = Inr r \<and>
      good_response ''text'' r = Inr True \<and>
      soup_find_all_img env (Some (body_text r)) = Inr imgs \<and> list_all img_ok imgs \<longrightarrow>
        fst (Vidble_extract_album env sv) = Inr () \<and>
        extracted_content (snd (Vidble_extract_album env sv)) =
          extracted_content sv @
            map ContentObj (contents_of (appended sv (snd (Vidble_extract_album env sv)))) \<and>
        map c_url (contents_of (appended sv (snd (Vidble_extract_album env sv)))) =
          map (\<lambda>l. PStr (vidble_base @ l)) (img2_links imgs) \<and>
        map c_count (contents_of (appended sv (snd (Vidble_extract_album env sv)))) =
          map Num [1..<1 + length (img2_links imgs)] \<and>
        distinct
          (map Content_file_name (contents_of (appended sv (snd (Vidble_extract_album env sv))))))"
proof (intro conjI impI)
  assume a: "CHR ''/'' \<in> set (url s) \<and> client s = Some c \<and>
    get_album_images c (after_last (url s) CHR ''/'') = Inr pics \<and> list_all picture_ok pics"
  then have h: "CHR ''/'' \<in> set (url s)" "client s = Some c"
    "get_album_images c (after_last (url s) CHR ''/'') = Inr pics" "list_all picture_ok pics"
    by simp_all
  note r = Imgur_album_ok [OF h]
  have l: "length pics = length [1..<1 + length pics]"
    by (simp only: length_upt add_diff_cancel_left')
  have d: "distinct [1..<1 + length pics]" by simp
  show "fst (Imgur_extract_album s) = Inr ()" by (rule r(1))
  show "extracted_content (snd (Imgur_extract_album s)) =
        extracted_content s @
          map ContentObj (contents_of (appended s (snd (Imgur_extract_album s))))"
    by (simp add: appended_def r(2) contents_of_map_zip case_prod_beta del: upt_Suc)
  show "map c_url (contents_of (appended s (snd (Imgur_extract_album s)))) =
        map (\<lambda>p. PStr (picture_url p)) pics"
    unfolding appended_def r(2) by (simp only: append_eq_conv_conj drop_append length_drop
        diff_self_eq_0 drop_0 drop_all order_refl append_Nil numbered_items(1) [OF l d])
  show "map c_count (contents_of (appended s (snd (Imgur_extract_album s)))) =
        map Num [1..<1 + length pics]"
    unfolding appended_def r(2) by (simp only: drop_append length_drop
        diff_self_eq_0 drop_0 drop_all order_refl append_Nil numbered_items(2) [OF l d])
  show "distinct (map Content_file_name (contents_of (appended s (snd (Imgur_extract_album s)))))"
    unfolding appended_def r(2) by (simp only: drop_append length_drop
        diff_self_eq_0 drop_0 drop_all order_refl append_Nil numbered_items(3) [OF l d])
next
  assume a: "CHR ''/'' \<in> set (url sv) \<and> requests_get env (url sv) = Inr r \<and>
      good_response ''text'' r = Inr True \<and>
      soup_find_all_img env (Some (body_text r)) = Inr imgs \<and> list_all img_ok imgs"
  then have h: "CHR ''/'' \<in> set (url sv)" "requests_get env (url sv) = Inr r"
    "good_response ''text'' r = Inr True" "soup_find_all_img env (Some (body_text r)) = Inr imgs"
    "list_all img_ok imgs"
    by simp_all
  note r = Vidble_album_ok [OF h]
  have l: "length (img2_links imgs) = length [1..<1 + length (img2_links imgs)]"
    by (simp only: length_upt add_diff_cancel_left')
  have d: "distinct [1..<1 + length (img2_links imgs)]" by simp
  show "fst (Vidble_extract_album env sv) = Inr ()" by (rule r(1))
  show "extracted_content (snd (Vidble_extract_album env sv)) =
          extracted_content sv @
            map ContentObj (contents_of (appended sv (snd (Vidble_extract_album env sv))))"
    by (simp add: appended_def r(2) contents_of_map_zip case_prod_beta del: upt_Suc)
  show "map c_url (contents_of (appended sv (snd (Vidble_extract_album env sv)))) =
          map (\<lambda>l. PStr (vidble_base @ l)) (img2_links imgs)"
    unfolding appended_def r(2) by (simp only: drop_append length_drop
        diff_self_eq_0 drop_0 drop_all order_refl append_Nil numbered_items(1) [OF l d])
  show "map c_count (contents_of (appended sv (snd (Vidble_extract_album env sv)))) =
          map Num [1..<1 + length (img2_links imgs)]"
    unfolding appended_def r(2) by (simp only: drop_append length_drop
        diff_self_eq_0 drop_0 drop_all order_refl append_Nil numbered_items(2) [OF l d])
  show "distinct
          (map Content_file_name (contents_of (appended sv (snd (Vidble_extract_album env sv)))))"
    unfolding appended_def r(2) by (simp only: drop_append length_drop
        diff_self_eq_0 drop_0 drop_all order_refl append_Nil numbered_items(3) [OF l d])
qed

theorem album_items_are_numbered_witness:
  "map c_count
     (contents_of
        (appended
           (sample_imgur ''https://imgur.com/a/xyz'' ''Post Title''
              (Some (static_client (still_picture ''https://i.imgur.com/p0.jpg'')
                 [still_picture ''https://i.imgur.com/p1.jpg'',
                  animated_picture ''https://i.imgur.com/p2.gif'' ''https://i.imgur.com/p2.mp4''])))
           (snd (Imgur_extract_album
                   (sample_imgur ''https://imgur.com/a/xyz'' ''Post Title''
                      (Some (static_client (still_picture ''https://i.imgur.com/p0.jpg'')
                         [still_picture ''https://i.imgur.com/p1.jpg'',
                          animated_picture ''https://i.imgur.com/p2.gif''
                            ''https://i.imgur.com/p2.mp4''])))))))
     = [Num 1, Num 2]
   \<and> map c_url
     (contents_of
        (appended
           (sample_imgur ''https://imgur.com/a/xyz'' ''Post Title''
              (Some (static_client (still_picture ''https://i.imgur.com/p0.jpg'')
                 [still_picture ''https://i.imgur.com/p1.jpg'',
                  animated_picture ''https://i.imgur.com/p2.gif'' ''https://i.imgur.com/p2.mp4''])))
           (snd (Imgur_extract_album
                   (sample_imgur ''https://imgur.com/a/xyz'' ''Post Title''
                      (Some (static_client (still_picture ''https://i.imgur.com/p0.jpg'')
                         [still_picture ''https://i.imgur.com/p1.jpg'',
                          animated_picture ''https://i.imgur.com/p2.gif''
                            ''https://i.imgur.com/p2.mp4''])))))))
     = [PStr ''https://i.imgur.com/p1.jpg'', PStr ''https://i.imgur.com/p2.mp4'']
   \<and> map c_count
     (contents_of
        (appended (sample_post ''https://vidble.com/album/abc'' ''Post Title'')
           (snd (Vidble_extract_album
                   (host_page [img2 ''/one.jpg'', \<lparr>img_class = None, img_src = Some ''/logo.png''\<rparr>,
                               img2 ''/two.png''])
                   (sample_post ''https://vidble.com/album/abc'' ''Post Title'')))))
     = [Num 1, Num 2]
   \<and> map c_url
     (contents_of
        (appended (sample_post ''https://vidble.com/album/abc'' ''Post Title'')
           (snd (Vidble_extract_album
                   (host_page [img2 ''/one.jpg'', \<lparr>img_class = None, img_src = Some ''/logo.png''\<rparr>,
                               img2 ''/two.png''])
                   (sample_post ''https://vidble.com/album/abc'' ''Post Title'')))))
     = [PStr ''https://vidble.com/one.jpg'', PStr ''https://vidble.com/two.png'']"
  using album_items_are_numbered
          [of "sample_imgur ''https://imgur.com/a/xyz'' ''Post Title''
                 (Some (static_client (still_picture ''https://i.imgur.com/p0.jpg'')
                    [still_picture ''https://i.imgur.com/p1.jpg'',
                     animated_picture ''https://i.imgur.com/p2.gif'' ''https://i.imgur.com/p2.mp4'']))"
              "static_client (still_picture ''https://i.imgur.com/p0.jpg'')
                 [still_picture ''https://i.imgur.com/p1.jpg'',
                  animated_picture ''https://i.imgur.com/p2.gif'' ''https://i.imgur.com/p2.mp4'']"
              "[still_picture ''https://i.imgur.com/p1.jpg'',
                animated_picture ''https://i.imgur.com/p2.gif'' ''https://i.imgur.com/p2.mp4'']"
              "sample_post ''https://vidble.com/album/abc'' ''Post Title''"
              "host_page [img2 ''/one.jpg'', \<lparr>img_class = None, img_src = Some ''/logo.png''\<rparr>,
                          img2 ''/two.png'']"
              "\<lparr>status_code = 200, content_type = Some ''text/html'',
                 json_body = Inl ValueError, body_text = ''<html>''\<rparr>"
              "[img2 ''/one.jpg'', \<lparr>img_class = None, img_src = Some ''/logo.png''\<rparr>,
                img2 ''/two.png'']"]
  by (simp add: sample_imgur_def sample_post_def Extractor_init_def static_client_def
      still_picture_def animated_picture_def picture_ok_def picture_url_def host_page_def
      img2_def img_ok_def img2_link_def good_response_def startswith_def vidble_base_def)

text \<open>
  The claim as it is written gives \<open>N\<close> items for \<open>N\<close> images found. On the Vidble page
  below two image links are found; the second has no dot, the split of its extension
  raises, and one item has been appended.
\<close>

theorem Vidble_album_stops_at_link_without_dot:
  "img2_links [img2 ''/one.jpg'', img2 ''/two''] = [''/one.jpg'', ''/two'']
   \<and> fst (Vidble_extract_album (host_page [img2 ''/one.jpg'', img2 ''/two''])
            (sample_post ''https://vidble.com/album/abc'' ''Post Title'')) = Inl ValueError
   \<and> map c_count
       (contents_of
          (extracted_content
             (snd (Vidble_extract_album (host_page [img2 ''/one.jpg'', img2 ''/two''])
                     (sample_post ''https://vidble.com/album/abc'' ''Post Title''))))) = [Num 1]"
  by (simp add: Vidble_extract_album_def unpack2_rsplit1 get_text_def Let_def host_page_def
      good_response_def startswith_def sent_def img2_def img2_link_def append_extracted_def
      Content_fields sample_post_def Extractor_init_def)


end
